theory Spec2Isabelle
  imports Complex_Main
begin

section \<open>Configuration (config.py)\<close>

text \<open>
  The class \<open>Config\<close> is read once from the environment. Its integer settings are
  produced by \<open>int(os.getenv(...))\<close>, so any integer may appear; its strings are arbitrary.
  The settings kept are those the three gateway components read, and \<open>SSL_ENABLED\<close>,
  the configuration's only TLS switch, which none of them reads.
\<close>

record config =
  APP_TITLE :: string
  APP_ICON :: string
  SESSION_TIMEOUT_MINUTES :: int
  MAX_LOGIN_ATTEMPTS :: int
  DASHBOARD_PASSWORD :: string
  DB_HOST :: string
  DB_PORT :: int
  DB_SERVICE :: string
  DB_USER :: string
  DB_PASSWORD :: string
  ORDS_BASE_URL :: string
  ORDS_USERNAME :: string
  ORDS_PASSWORD :: string
  SSL_ENABLED :: bool
  POOL_MIN :: int
  POOL_MAX :: int
  POOL_INCREMENT :: int
  API_TIMEOUT :: int

section \<open>Python values, exceptions and text\<close>

text \<open>
  Exceptions are values. A function of the source that can raise returns a pair: the
  outcome (\<open>Inl\<close> the exception, \<open>Inr\<close> the returned value) and the state as the call
  left it, since mutations made before a raise persist in Python. Each component has the
  exceptions its code can meet; asynchronous interrupts are outside the model.
\<close>

datatype script_exn =
    AttributeError
  | OverflowError
  | StopException
  | RerunException

text \<open>
  Values that cross the two gateways (query parameters, JSON bodies, database rows).
  A \<open>dict\<close> is the list of its items in insertion order, keys distinct. Floats are only
  passed through by the code modelled here, never computed with.
\<close>

datatype pyval =
    PNone
  | PBool bool
  | PInt int
  | PFloat real
  | PStr string
  | PList "pyval list"
  | PDict "(string \<times> pyval) list"

text \<open>\<open>str(n)\<close> for an integer: decimal digits, with a leading minus sign.\<close>

definition digit :: "nat \<Rightarrow> char" where
  "digit d = char_of (48 + d)"

function show_nat :: "nat \<Rightarrow> string" where
  "show_nat n = (if n < 10 then [digit n] else show_nat (n div 10) @ [digit (n mod 10)])"
  by pat_completeness auto
termination
  by (relation "measure id") auto

declare show_nat.simps [simp del]

definition show_int :: "int \<Rightarrow> string" where
  "show_int i = (if i < 0 then CHR ''-'' # show_nat (nat (- i)) else show_nat (nat i))"

section \<open>Session Guard (auth.py)\<close>

text \<open>
  \<open>st.session_state\<close> is a key-value bag: a key may be absent, which
  \<open>initialize_session_state\<close> and \<open>check_session_timeout\<close> test for. Each of the four
  keys is therefore an option (\<open>None\<close>: the key is absent); \<open>username\<close> holds
  Python's \<open>None\<close> or a string once present.

  Time points are integers (microseconds, the resolution of \<open>datetime\<close>).
  \<open>datetime.now()\<close> reads the environment: \<open>clock s k\<close> is the value of the k-th
  reading and \<open>reads s\<close> counts the readings made so far, so that successive readings in
  one call may differ.

  \<open>ui\<close> is the Streamlit output in the order it is produced.
\<close>

datatype ui_event =
    StError string
  | StWarning string
  | StSuccess string
  | LoginForm string
  | DefaultConfigurationInfo int

record session =
  authenticated :: "bool option"
  login_attempts :: "int option"
  last_activity :: "int option"
  username :: "string option option"
  clock :: "nat \<Rightarrow> int"
  reads :: nat
  ui :: "ui_event list"

definition datetime_now :: "session \<Rightarrow> int \<times> session" where
  "datetime_now s = (clock s (reads s), s\<lparr>reads := Suc (reads s)\<rparr>)"

definition st_error :: "string \<Rightarrow> session \<Rightarrow> session" where
  "st_error msg s = s\<lparr>ui := ui s @ [StError msg]\<rparr>"

definition st_warning :: "string \<Rightarrow> session \<Rightarrow> session" where
  "st_warning msg s = s\<lparr>ui := ui s @ [StWarning msg]\<rparr>"

definition st_success :: "string \<Rightarrow> session \<Rightarrow> session" where
  "st_success msg s = s\<lparr>ui := ui s @ [StSuccess msg]\<rparr>"

text \<open>
  \<open>timedelta(minutes=m)\<close> in microseconds. The constructor raises \<open>OverflowError\<close> when
  the normalised day count \<open>m // 1440\<close> leaves \<open>\<plusminus>999999999\<close>.
\<close>

definition timedelta_minutes :: "int \<Rightarrow> script_exn + int" where
  "timedelta_minutes m =
     (if m div 1440 < - 999999999 \<or> 999999999 < m div 1440 then Inl OverflowError
      else Inr (m * 60000000))"

definition initialize_session_state :: "session \<Rightarrow> session" where
  "initialize_session_state s =
     (let s1 = (if authenticated s = None then s\<lparr>authenticated := Some False\<rparr> else s);
          s2 = (if login_attempts s1 = None then s1\<lparr>login_attempts := Some 0\<rparr> else s1);
          s3 = (if last_activity s2 = None
                then (case datetime_now s2 of (t, s') \<Rightarrow> s'\<lparr>last_activity := Some t\<rparr>)
                else s2)
      in if username s3 = None then s3\<lparr>username := Some None\<rparr> else s3)"

definition logout :: "session \<Rightarrow> session" where
  "logout s =
     (case datetime_now (s\<lparr>authenticated := Some False, username := Some None\<rparr>) of
        (t, s') \<Rightarrow> s'\<lparr>last_activity := Some t\<rparr>)"

definition check_session_timeout :: "config \<Rightarrow> session \<Rightarrow> (script_exn + bool) \<times> session" where
  "check_session_timeout cfg s =
     (case last_activity s of
        None \<Rightarrow> (Inr False, s)
      | Some la \<Rightarrow>
          (case timedelta_minutes (SESSION_TIMEOUT_MINUTES cfg) of
             Inl e \<Rightarrow> (Inl e, s)
           | Inr timeout \<Rightarrow>
               (case datetime_now s of
                  (t, s1) \<Rightarrow>
                    if t - la > timeout then (Inr True, logout s1) else (Inr False, s1))))"

definition update_activity :: "session \<Rightarrow> session" where
  "update_activity s = (case datetime_now s of (t, s') \<Rightarrow> s'\<lparr>last_activity := Some t\<rparr>)"

text \<open>
  \<open>login\<close> reads \<open>st.session_state.login_attempts\<close> first: an absent key raises
  \<open>AttributeError\<close>. The lockout branch returns before the password is looked at.
\<close>

definition login :: "config \<Rightarrow> string \<Rightarrow> session \<Rightarrow> (script_exn + bool) \<times> session" where
  "login cfg password s =
     (case login_attempts s of
        None \<Rightarrow> (Inl AttributeError, s)
      | Some n \<Rightarrow>
          if n \<ge> MAX_LOGIN_ATTEMPTS cfg then
            (Inr False,
             st_error (''Maximum login attempts ('' @ show_int (MAX_LOGIN_ATTEMPTS cfg)
                        @ '') exceeded. Please try again later.'') s)
          else if password = DASHBOARD_PASSWORD cfg then
            (case datetime_now
                    (s\<lparr>authenticated := Some True, username := Some (Some ''admin''),
                       login_attempts := Some 0\<rparr>) of
               (t, s') \<Rightarrow> (Inr True, s'\<lparr>last_activity := Some t\<rparr>))
          else
            (let s1 = s\<lparr>login_attempts := Some (n + 1)\<rparr>;
                 remaining_attempts = MAX_LOGIN_ATTEMPTS cfg - (n + 1)
             in (Inr False,
                 if remaining_attempts > 0
                 then st_error (''Invalid password. '' @ show_int remaining_attempts
                                  @ '' attempt(s) remaining.'') s1
                 else st_error ''Maximum login attempts exceeded. Please try again later.'' s1)))"

definition is_authenticated :: "session \<Rightarrow> bool" where
  "is_authenticated s = (case authenticated s of None \<Rightarrow> False | Some b \<Rightarrow> b)"

text \<open>
  The login form: \<open>submit_button\<close> and the typed password come from the user.
  The static widgets (title, rule, columns, sub-header, form) are one \<open>LoginForm\<close> event
  carrying the title text; the closing \<open>st.info\<close> block is one event carrying the
  session timeout it prints. \<open>st.rerun()\<close> and \<open>st.stop()\<close> end the script run by
  raising Streamlit's control exceptions.
\<close>

record form_input =
  password_input :: string
  submit_button :: bool

definition show_login_page :: "config \<Rightarrow> form_input \<Rightarrow> session \<Rightarrow> (script_exn + unit) \<times> session" where
  "show_login_page cfg form s =
     (let s1 = s\<lparr>ui := ui s @ [LoginForm (APP_ICON cfg @ '' '' @ APP_TITLE cfg)]\<rparr>;
          r = (if submit_button form then
                 if password_input form \<noteq> [] then
                   (case login cfg (password_input form) s1 of
                      (Inl e, s2) \<Rightarrow> (Inl e, s2)
                    | (Inr ok, s2) \<Rightarrow>
                        if ok then (Inl RerunException, st_success ''Login successful!'' s2)
                        else (Inr (), s2))
                 else (Inr (), st_error ''Please enter a password'' s1)
               else (Inr (), s1))
      in case r of
           (Inl e, s3) \<Rightarrow> (Inl e, s3)
         | (Inr u, s3) \<Rightarrow>
             (case login_attempts s3 of
                None \<Rightarrow> (Inl AttributeError, s3)
              | Some n \<Rightarrow>
                  (let s4 = (if n > 0
                             then st_warning (''Failed login attempts: '' @ show_int n @ '' / ''
                                               @ show_int (MAX_LOGIN_ATTEMPTS cfg)) s3
                             else s3)
                   in (Inr (),
                       s4\<lparr>ui := ui s4
                               @ [DefaultConfigurationInfo (SESSION_TIMEOUT_MINUTES cfg)]\<rparr>))))"

definition require_authentication ::
    "config \<Rightarrow> form_input \<Rightarrow> session \<Rightarrow> (script_exn + unit) \<times> session" where
  "require_authentication cfg form s =
     (case check_session_timeout cfg (initialize_session_state s) of
        (Inl e, s2) \<Rightarrow> (Inl e, s2)
      | (Inr timed_out, s2) \<Rightarrow>
          (let s3 = (if timed_out then st_warning ''Session timed out. Please login again.'' s2
                     else s2)
           in if \<not> is_authenticated s3 then
                (case show_login_page cfg form s3 of
                   (Inl e, s4) \<Rightarrow> (Inl e, s4)
                 | (Inr u, s4) \<Rightarrow> (Inl StopException, s4))
              else (Inr (), update_activity s3)))"

subsection \<open>Sequences of Session Guard operations\<close>

text \<open>
  A session's history is a list of calls made one after the other on the same
  \<open>st.session_state\<close>; a call that raises leaves the state as it was at the raise, and the
  next call goes on from there. The session starts with no key set and is initialised by
  \<open>initialize_session_state\<close>.
\<close>

datatype guard_op =
    Login string
  | Logout
  | CheckTimeout
  | RequireAuthentication form_input

fun apply_op :: "config \<Rightarrow> guard_op \<Rightarrow> session \<Rightarrow> session" where
  "apply_op cfg (Login p) s = snd (login cfg p s)"
| "apply_op cfg Logout s = logout s"
| "apply_op cfg CheckTimeout s = snd (check_session_timeout cfg s)"
| "apply_op cfg (RequireAuthentication form) s = snd (require_authentication cfg form s)"

fun run_ops :: "config \<Rightarrow> guard_op list \<Rightarrow> session \<Rightarrow> session" where
  "run_ops cfg [] s = s"
| "run_ops cfg (x # xs) s = run_ops cfg xs (apply_op cfg x s)"

definition empty_session :: "(nat \<Rightarrow> int) \<Rightarrow> session" where
  "empty_session clk =
     \<lparr>authenticated = None, login_attempts = None, last_activity = None, username = None,
      clock = clk, reads = 0, ui = []\<rparr>"

definition initial_session :: "(nat \<Rightarrow> int) \<Rightarrow> session" where
  "initial_session clk = initialize_session_state (empty_session clk)"

subsection \<open>Predicates on the session state\<close>

text \<open>
  \<open>attempts_in_range\<close>: the failed attempts counter is set and lies between 0 and the
  configured maximum. \<open>since_last_reading\<close>: the time from the latest clock reading made
  to the next one.
\<close>

definition attempts_in_range :: "config \<Rightarrow> session \<Rightarrow> bool" where
  "attempts_in_range cfg s =
     (case login_attempts s of None \<Rightarrow> False | Some n \<Rightarrow> 0 \<le> n \<and> n \<le> MAX_LOGIN_ATTEMPTS cfg)"

definition since_last_reading :: "session \<Rightarrow> int" where
  "since_last_reading s = clock s (reads s) - clock s (reads s - 1)"

section \<open>API Gateway (utils/api_client.py)\<close>

text \<open>
  \<open>ORDSClient.__init__\<close> builds the API session from the configuration: the base URL
  without trailing slashes, the basic-auth credentials, the timeout, and the TLS
  verification flag, which the constructor sets to \<open>False\<close>.
\<close>

datatype http_auth = HTTPBasicAuth string string

record ords_client =
  base_url :: string
  auth :: http_auth
  timeout :: int
  verify_ssl :: bool

definition lstrip_slash :: "string \<Rightarrow> string" where
  "lstrip_slash s = dropWhile (\<lambda>c. c = CHR ''/'') s"

definition rstrip_slash :: "string \<Rightarrow> string" where
  "rstrip_slash s = rev (dropWhile (\<lambda>c. c = CHR ''/'') (rev s))"

definition ORDSClient_init :: "config \<Rightarrow> ords_client" where
  "ORDSClient_init cfg =
     \<lparr>base_url = rstrip_slash (ORDS_BASE_URL cfg),
      auth = HTTPBasicAuth (ORDS_USERNAME cfg) (ORDS_PASSWORD cfg),
      timeout = API_TIMEOUT cfg,
      verify_ssl = False\<rparr>"

text \<open>
  One call of \<open>requests.request\<close>: the keyword arguments it is given. \<open>auth\<close> and
  \<open>timeout\<close> are optional arguments of the library (\<open>None\<close>: no credentials, no time
  limit), so the request records whether they were passed.
\<close>

record http_request =
  req_method :: string
  req_url :: string
  req_auth :: "http_auth option"
  req_params :: "(string \<times> pyval) list option"
  req_json :: "pyval option"
  req_timeout :: "int option"
  req_verify :: bool

text \<open>
  The exceptions the gateway can meet: \<open>RequestException msg\<close> is any instance of
  \<open>requests.exceptions.RequestException\<close> (timeout, refused connection, TLS error, HTTP
  status error, ...) with \<open>str(e) = msg\<close>; \<open>OtherException msg\<close> is any other
  \<open>Exception\<close>.
\<close>

datatype api_exn =
    RequestException string
  | OtherException string

text \<open>
  A response as \<open>_make_request\<close> reads it: status line, final URL, and what
  \<open>response.json()\<close> does (returns the parsed value or raises).
\<close>

record http_response =
  status_code :: nat
  reason :: string
  resp_url :: string
  json_result :: "api_exn + pyval"

text \<open>
  The network is a parameter: what \<open>requests.request\<close> does with a request
  (raises, or returns a response).
\<close>

type_synonym transport = "http_request \<Rightarrow> api_exn + http_response"

text \<open>
  \<open>Response.raise_for_status()\<close> of the requests library: an \<open>HTTPError\<close> (a
  \<open>RequestException\<close>) for the client-error range 400..499 and the server-error range
  500..599, with the library's message; nothing for any other status.
\<close>

definition raise_for_status :: "http_response \<Rightarrow> api_exn option" where
  "raise_for_status r =
     (if 400 \<le> status_code r \<and> status_code r < 500 then
        Some (RequestException (show_nat (status_code r) @ '' Client Error: '' @ reason r
                                 @ '' for url: '' @ resp_url r))
      else if 500 \<le> status_code r \<and> status_code r < 600 then
        Some (RequestException (show_nat (status_code r) @ '' Server Error: '' @ reason r
                                 @ '' for url: '' @ resp_url r))
      else None)"

text \<open>
  The gateway's effects: the outbound calls issued, in order, and the Streamlit output.
\<close>

record api_io =
  calls :: "http_request list"
  api_ui :: "ui_event list"

definition build_request ::
    "ords_client \<Rightarrow> string \<Rightarrow> string \<Rightarrow> (string \<times> pyval) list option \<Rightarrow> pyval option
       \<Rightarrow> http_request" where
  "build_request self method endpoint params json_data =
     \<lparr>req_method = method,
      req_url = base_url self @ ''/'' @ lstrip_slash endpoint,
      req_auth = Some (auth self),
      req_params = params,
      req_json = json_data,
      req_timeout = Some (timeout self),
      req_verify = verify_ssl self\<rparr>"

text \<open>
  The \<open>except requests.exceptions.RequestException\<close> clause of \<open>_make_request\<close>:
  a \<open>RequestException\<close> is reported and becomes the error envelope; any other exception
  is not caught.
\<close>

definition on_request_exception :: "api_exn \<Rightarrow> api_io \<Rightarrow> (api_exn + pyval) \<times> api_io" where
  "on_request_exception e io =
     (case e of
        RequestException msg \<Rightarrow>
          (Inr (PDict [(''error'', PStr msg)]),
           io\<lparr>api_ui := api_ui io @ [StError (''API request failed: '' @ msg)]\<rparr>)
      | OtherException msg \<Rightarrow> (Inl e, io))"

text \<open>\<open>ORDSClient._make_request\<close> (the leading underscore is not an Isabelle name).\<close>

definition make_request ::
    "ords_client \<Rightarrow> transport \<Rightarrow> string \<Rightarrow> string \<Rightarrow> (string \<times> pyval) list option
       \<Rightarrow> pyval option \<Rightarrow> api_io \<Rightarrow> (api_exn + pyval) \<times> api_io" where
  "make_request self net method endpoint params json_data io =
     (let req = build_request self method endpoint params json_data;
          io1 = io\<lparr>calls := calls io @ [req]\<rparr>
      in case net req of
           Inl e \<Rightarrow> on_request_exception e io1
         | Inr response \<Rightarrow>
             (case raise_for_status response of
                Some e \<Rightarrow> on_request_exception e io1
              | None \<Rightarrow>
                  if status_code response = 204 then (Inr (PDict [(''success'', PBool True)]), io1)
                  else (case json_result response of
                          Inl e \<Rightarrow> on_request_exception e io1
                        | Inr body \<Rightarrow> (Inr body, io1))))"

definition get ::
    "ords_client \<Rightarrow> transport \<Rightarrow> string \<Rightarrow> (string \<times> pyval) list option \<Rightarrow> api_io
       \<Rightarrow> (api_exn + pyval) \<times> api_io" where
  "get self net endpoint params io = make_request self net ''GET'' endpoint params None io"

definition post ::
    "ords_client \<Rightarrow> transport \<Rightarrow> string \<Rightarrow> pyval option \<Rightarrow> api_io
       \<Rightarrow> (api_exn + pyval) \<times> api_io" where
  "post self net endpoint json_data io = make_request self net ''POST'' endpoint None json_data io"

definition put ::
    "ords_client \<Rightarrow> transport \<Rightarrow> string \<Rightarrow> pyval option \<Rightarrow> api_io
       \<Rightarrow> (api_exn + pyval) \<times> api_io" where
  "put self net endpoint json_data io = make_request self net ''PUT'' endpoint None json_data io"

definition delete ::
    "ords_client \<Rightarrow> transport \<Rightarrow> string \<Rightarrow> api_io \<Rightarrow> (api_exn + pyval) \<times> api_io" where
  "delete self net endpoint io = make_request self net ''DELETE'' endpoint None None io"

text \<open>
  \<open>params[key] = value\<close> on a dict: the value of an existing key is replaced in place,
  a new key is appended.
\<close>

fun dict_set :: "(string \<times> pyval) list \<Rightarrow> string \<Rightarrow> pyval \<Rightarrow> (string \<times> pyval) list" where
  "dict_set [] k v = [(k, v)]"
| "dict_set ((k', v') # kvs) k v = (if k' = k then (k, v) # kvs else (k', v') # dict_set kvs k v)"

text \<open>
  Truth value of an \<open>Optional[str]\<close>: \<open>None\<close> and the empty string are false.
  \<open>str_or_none\<close> is the same argument as the value stored in the dict.
\<close>

definition truthy :: "string option \<Rightarrow> bool" where
  "truthy s = (case s of None \<Rightarrow> False | Some t \<Rightarrow> t \<noteq> [])"

definition str_or_none :: "string option \<Rightarrow> pyval" where
  "str_or_none s = (case s of None \<Rightarrow> PNone | Some t \<Rightarrow> PStr t)"

definition get_recommendations ::
    "ords_client \<Rightarrow> transport \<Rightarrow> string option \<Rightarrow> real \<Rightarrow> int \<Rightarrow> api_io
       \<Rightarrow> (api_exn + pyval) \<times> api_io" where
  "get_recommendations self net strategy min_savings_pct limit io =
     (let params = [(''min_savings_pct'', PFloat min_savings_pct), (''limit'', PInt limit)];
          params' = (if truthy strategy then dict_set params ''strategy'' (str_or_none strategy)
                     else params)
      in get self net ''recommendations'' (Some params') io)"

text \<open>
  \<open>health_check\<close>: \<open>response.get("status") == "healthy"\<close> inside
  \<open>try ... except Exception: return False\<close>. The \<open>.get\<close> of a value that is not a
  dict raises \<open>AttributeError\<close>, which the clause catches like everything else.
\<close>

definition health_check ::
    "ords_client \<Rightarrow> transport \<Rightarrow> api_io \<Rightarrow> (api_exn + bool) \<times> api_io" where
  "health_check self net io =
     (case get self net ''health'' None io of
        (Inl e, io') \<Rightarrow> (Inr False, io')
      | (Inr response, io') \<Rightarrow>
          (case response of
             PDict items \<Rightarrow> (Inr (map_of items ''status'' = Some (PStr ''healthy'')), io')
           | _ \<Rightarrow> (Inr False, io')))"

text \<open>
  The shape the specification gives a failure: a mapping whose single key is \<open>error\<close>,
  holding a non-empty string.
\<close>

fun is_error_envelope :: "pyval \<Rightarrow> bool" where
  "is_error_envelope (PDict [(k, PStr msg)]) = (k = ''error'' \<and> msg \<noteq> [])"
| "is_error_envelope _ = False"

definition returns_error_envelope :: "api_exn + pyval \<Rightarrow> bool" where
  "returns_error_envelope outcome =
     (case outcome of Inl e \<Rightarrow> False | Inr v \<Rightarrow> is_error_envelope v)"

section \<open>Database Gateway (utils/db_connector.py)\<close>

text \<open>
  The exceptions the gateway tells apart: \<open>OracleError msg\<close> is any instance of
  \<open>oracledb.Error\<close> with \<open>str(e) = msg\<close>, the class its \<open>except\<close> clauses name;
  \<open>NoneAttributeError\<close> is the \<open>AttributeError\<close> of calling a method on \<open>None\<close>;
  \<open>NoneTypeError\<close> is the \<open>TypeError\<close> of iterating \<open>None\<close>; \<open>OtherError msg\<close>
  is any other \<open>Exception\<close>.
\<close>

datatype db_exn =
    OracleError string
  | NoneAttributeError
  | NoneTypeError
  | OtherError string

type_synonym connection = nat

type_synonym row = "pyval list"

text \<open>The keyword arguments of \<open>oracledb.create_pool\<close>.\<close>

record pool =
  pool_user :: string
  pool_password :: string
  pool_dsn :: string
  pool_min :: int
  pool_max :: int
  pool_increment :: int
  pool_threaded :: bool

text \<open>
  The calls made on the driver, in order. \<open>Acquire c\<close> is a successful
  \<open>pool.acquire()\<close> that handed out connection \<open>c\<close>; \<open>Release c\<close> is
  \<open>pool.release(c)\<close>.
\<close>

datatype db_event =
    CreatePool pool
  | Acquire connection
  | Release connection
  | ClosePool
  | Execute string "(string \<times> pyval) list option"
  | CallProc string "pyval list option"
  | Commit

text \<open>
  The state of the gateway: the class attribute \<open>DatabaseConnector._pool\<close>
  (\<open>None\<close> until a pool is created, and again after \<open>close_pool\<close>), the driver calls
  made, and the Streamlit output.
\<close>

record db_state =
  pool_slot :: "pool option"
  db_log :: "db_event list"
  db_ui :: "ui_event list"

text \<open>
  The database is a parameter: what each driver call does during one gateway operation
  (raises, or returns). Every operation makes each of these calls at most once.
  \<open>pool.release\<close>, the reads of \<open>cursor.rowcount\<close> and \<open>cursor.description\<close>,
  and the construction of the data frame are taken not to raise.
\<close>

record driver =
  create_pool_raises :: "db_exn option"
  acquire_result :: "db_exn + connection"
  cursor_raises :: "db_exn option"
  execute_raises :: "string \<Rightarrow> (string \<times> pyval) list option \<Rightarrow> db_exn option"
  fetchall_result :: "db_exn + row list"
  fetchone_raises :: "db_exn option"
  description :: "string list option"
  rowcount :: int
  callproc_result :: "string \<Rightarrow> pyval list option \<Rightarrow> db_exn + pyval"
  commit_raises :: "db_exn option"
  cursor_close_raises :: "db_exn option"
  pool_close_raises :: "db_exn option"

record data_frame =
  columns :: "string list"
  rows :: "row list"

definition empty_data_frame :: data_frame where
  "empty_data_frame = \<lparr>columns = [], rows = []\<rparr>"

definition db_st_error :: "string \<Rightarrow> db_state \<Rightarrow> db_state" where
  "db_st_error msg s = s\<lparr>db_ui := db_ui s @ [StError msg]\<rparr>"

definition db_call :: "db_event \<Rightarrow> db_state \<Rightarrow> db_state" where
  "db_call ev s = s\<lparr>db_log := db_log s @ [ev]\<rparr>"

text \<open>
  An \<open>except oracledb.Error as e: st.error(prefix + str(e))\<close> clause, as far as its
  report goes: other exceptions pass it untouched.
\<close>

definition report_oracle_error :: "string \<Rightarrow> db_exn \<Rightarrow> db_state \<Rightarrow> db_state" where
  "report_oracle_error prefix e s =
     (case e of OracleError msg \<Rightarrow> db_st_error (prefix @ msg) s | _ \<Rightarrow> s)"

definition new_pool :: "config \<Rightarrow> pool" where
  "new_pool cfg =
     \<lparr>pool_user = DB_USER cfg,
      pool_password = DB_PASSWORD cfg,
      pool_dsn = DB_HOST cfg @ '':'' @ show_int (DB_PORT cfg) @ ''/'' @ DB_SERVICE cfg,
      pool_min = POOL_MIN cfg,
      pool_max = POOL_MAX cfg,
      pool_increment = POOL_INCREMENT cfg,
      pool_threaded = True\<rparr>"

definition initialize_pool :: "config \<Rightarrow> driver \<Rightarrow> db_state \<Rightarrow> (db_exn + unit) \<times> db_state" where
  "initialize_pool cfg drv s =
     (case pool_slot s of
        Some p \<Rightarrow> (Inr (), s)
      | None \<Rightarrow>
          (case create_pool_raises drv of
             Some e \<Rightarrow> (Inl e, report_oracle_error ''Failed to create connection pool: '' e s)
           | None \<Rightarrow>
               (Inr (), db_call (CreatePool (new_pool cfg)) (s\<lparr>pool_slot := Some (new_pool cfg)\<rparr>))))"

text \<open>
  \<open>get_connection\<close> is a context manager; \<open>body\<close> is the block under
  \<open>with cls.get_connection() as conn:\<close>. An exception of the block is thrown into the
  generator at its \<open>yield\<close>, so the \<open>except\<close> and \<open>finally\<close> clauses see it.
  The \<open>finally\<close> clause releases whenever \<open>acquire\<close> returned a connection, through
  \<open>cls._pool\<close> as it is at that moment.
\<close>

definition release_connection ::
    "connection \<Rightarrow> (db_exn + 'a) \<Rightarrow> db_state \<Rightarrow> (db_exn + 'a) \<times> db_state" where
  "release_connection c outcome s =
     (case pool_slot s of
        None \<Rightarrow> (Inl NoneAttributeError, s)
      | Some p \<Rightarrow> (outcome, db_call (Release c) s))"

definition get_connection ::
    "config \<Rightarrow> driver \<Rightarrow> (connection \<Rightarrow> db_state \<Rightarrow> (db_exn + 'a) \<times> db_state) \<Rightarrow> db_state
       \<Rightarrow> (db_exn + 'a) \<times> db_state" where
  "get_connection cfg drv body s =
     (case (if pool_slot s = None then initialize_pool cfg drv s else (Inr (), s)) of
        (Inl e, s1) \<Rightarrow> (Inl e, s1)
      | (Inr u, s1) \<Rightarrow>
          (case pool_slot s1 of
             None \<Rightarrow> (Inl NoneAttributeError, s1)
           | Some p \<Rightarrow>
               (case acquire_result drv of
                  Inl e \<Rightarrow> (Inl e, report_oracle_error ''Database connection error: '' e s1)
                | Inr c \<Rightarrow>
                    (case body c (db_call (Acquire c) s1) of
                       (Inl e, s2) \<Rightarrow>
                         release_connection c (Inl e)
                           (report_oracle_error ''Database connection error: '' e s2)
                     | (Inr v, s2) \<Rightarrow> release_connection c (Inr v) s2))))"

text \<open>
  Each of the four operations wraps its \<open>with\<close> block in
  \<open>try: ... except oracledb.Error as e: st.error(prefix + str(e)); return default\<close>:
  an \<open>oracledb.Error\<close> is reported and replaced by the operation's default value, any
  other exception goes on to the caller.
\<close>

definition except_oracle_error ::
    "string \<Rightarrow> 'a \<Rightarrow> (db_exn + 'a) \<times> db_state \<Rightarrow> (db_exn + 'a) \<times> db_state" where
  "except_oracle_error prefix fallback r =
     (case r of
        (Inl e, s) \<Rightarrow>
          (case e of
             OracleError msg \<Rightarrow> (Inr fallback, db_st_error (prefix @ msg) s)
           | _ \<Rightarrow> (Inl e, s))
      | (Inr v, s) \<Rightarrow> (Inr v, s))"

text \<open>\<open>if params:\<close> passes the parameters only when they are given and not empty.\<close>

definition given :: "'a list option \<Rightarrow> 'a list option" where
  "given params = (case params of None \<Rightarrow> None | Some ps \<Rightarrow> if ps = [] then None else Some ps)"

definition query_body ::
    "driver \<Rightarrow> string \<Rightarrow> (string \<times> pyval) list option \<Rightarrow> connection \<Rightarrow> db_state
       \<Rightarrow> (db_exn + data_frame) \<times> db_state" where
  "query_body drv query params conn s =
     (case cursor_raises drv of
        Some e \<Rightarrow> (Inl e, s)
      | None \<Rightarrow>
          (let s1 = db_call (Execute query (given params)) s in
           case execute_raises drv query (given params) of
             Some e \<Rightarrow> (Inl e, s1)
           | None \<Rightarrow>
               (case fetchall_result drv of
                  Inl e \<Rightarrow> (Inl e, s1)
                | Inr fetched \<Rightarrow>
                    (case description drv of
                       None \<Rightarrow> (Inl NoneTypeError, s1)
                     | Some names \<Rightarrow>
                         (case cursor_close_raises drv of
                            Some e \<Rightarrow> (Inl e, s1)
                          | None \<Rightarrow> (Inr \<lparr>columns = names, rows = fetched\<rparr>, s1))))))"

definition execute_query ::
    "config \<Rightarrow> driver \<Rightarrow> string \<Rightarrow> (string \<times> pyval) list option \<Rightarrow> db_state
       \<Rightarrow> (db_exn + data_frame) \<times> db_state" where
  "execute_query cfg drv query params s =
     except_oracle_error ''Query execution error: '' empty_data_frame
       (get_connection cfg drv (query_body drv query params) s)"

definition dml_body ::
    "driver \<Rightarrow> string \<Rightarrow> (string \<times> pyval) list option \<Rightarrow> bool \<Rightarrow> connection \<Rightarrow> db_state
       \<Rightarrow> (db_exn + int) \<times> db_state" where
  "dml_body drv statement params commit conn s =
     (case cursor_raises drv of
        Some e \<Rightarrow> (Inl e, s)
      | None \<Rightarrow>
          (let s1 = db_call (Execute statement (given params)) s in
           case execute_raises drv statement (given params) of
             Some e \<Rightarrow> (Inl e, s1)
           | None \<Rightarrow>
               (let rows_affected = rowcount drv in
                case (if commit
                      then (case commit_raises drv of
                              Some e \<Rightarrow> (Inl e, db_call Commit s1)
                            | None \<Rightarrow> (Inr (), db_call Commit s1))
                      else (Inr (), s1)) of
                  (Inl e, s2) \<Rightarrow> (Inl e, s2)
                | (Inr u, s2) \<Rightarrow>
                    (case cursor_close_raises drv of
                       Some e \<Rightarrow> (Inl e, s2)
                     | None \<Rightarrow> (Inr rows_affected, s2)))))"

definition execute_dml ::
    "config \<Rightarrow> driver \<Rightarrow> string \<Rightarrow> (string \<times> pyval) list option \<Rightarrow> bool \<Rightarrow> db_state
       \<Rightarrow> (db_exn + int) \<times> db_state" where
  "execute_dml cfg drv statement params commit s =
     except_oracle_error ''DML execution error: '' 0
       (get_connection cfg drv (dml_body drv statement params commit) s)"

definition procedure_body ::
    "driver \<Rightarrow> string \<Rightarrow> pyval list option \<Rightarrow> connection \<Rightarrow> db_state
       \<Rightarrow> (db_exn + pyval) \<times> db_state" where
  "procedure_body drv procedure_name params conn s =
     (case cursor_raises drv of
        Some e \<Rightarrow> (Inl e, s)
      | None \<Rightarrow>
          (let s1 = db_call (CallProc procedure_name (given params)) s in
           case callproc_result drv procedure_name (given params) of
             Inl e \<Rightarrow> (Inl e, s1)
           | Inr result \<Rightarrow>
               (let s2 = db_call Commit s1 in
                case commit_raises drv of
                  Some e \<Rightarrow> (Inl e, s2)
                | None \<Rightarrow>
                    (case cursor_close_raises drv of
                       Some e \<Rightarrow> (Inl e, s2)
                     | None \<Rightarrow> (Inr result, s2)))))"

definition execute_procedure ::
    "config \<Rightarrow> driver \<Rightarrow> string \<Rightarrow> pyval list option \<Rightarrow> db_state
       \<Rightarrow> (db_exn + pyval) \<times> db_state" where
  "execute_procedure cfg drv procedure_name params s =
     except_oracle_error ''Procedure execution error: '' PNone
       (get_connection cfg drv (procedure_body drv procedure_name params) s)"

definition test_body :: "driver \<Rightarrow> connection \<Rightarrow> db_state \<Rightarrow> (db_exn + bool) \<times> db_state" where
  "test_body drv conn s =
     (case cursor_raises drv of
        Some e \<Rightarrow> (Inl e, s)
      | None \<Rightarrow>
          (let s1 = db_call (Execute ''SELECT 1 FROM DUAL'' None) s in
           case execute_raises drv ''SELECT 1 FROM DUAL'' None of
             Some e \<Rightarrow> (Inl e, s1)
           | None \<Rightarrow>
               (case fetchone_raises drv of
                  Some e \<Rightarrow> (Inl e, s1)
                | None \<Rightarrow>
                    (case cursor_close_raises drv of
                       Some e \<Rightarrow> (Inl e, s1)
                     | None \<Rightarrow> (Inr True, s1)))))"

definition test_connection :: "config \<Rightarrow> driver \<Rightarrow> db_state \<Rightarrow> (db_exn + bool) \<times> db_state" where
  "test_connection cfg drv s =
     except_oracle_error ''Connection test failed: '' False
       (get_connection cfg drv (test_body drv) s)"

definition close_pool :: "driver \<Rightarrow> db_state \<Rightarrow> (db_exn + unit) \<times> db_state" where
  "close_pool drv s =
     (case pool_slot s of
        None \<Rightarrow> (Inr (), s)
      | Some p \<Rightarrow>
          (case pool_close_raises drv of
             Some e \<Rightarrow> (Inl e, s)
           | None \<Rightarrow> (Inr (), db_call ClosePool (s\<lparr>pool_slot := None\<rparr>))))"

subsection \<open>Checkout and release in a trace of driver calls\<close>

text \<open>
  \<open>unreleased evs\<close> lists the connections a trace has acquired and not released
  afterwards: an acquire adds the connection, a later release of it removes it.
  \<open>trace_of s s'\<close> is what a gateway operation taking \<open>s\<close> to \<open>s'\<close> has added to the
  log.
\<close>

fun unreleased_from :: "connection list \<Rightarrow> db_event list \<Rightarrow> connection list" where
  "unreleased_from held [] = held"
| "unreleased_from held (Acquire c # evs) = unreleased_from (c # held) evs"
| "unreleased_from held (Release c # evs) = unreleased_from (remove1 c held) evs"
| "unreleased_from held (ev # evs) = unreleased_from held evs"

definition unreleased :: "db_event list \<Rightarrow> connection list" where
  "unreleased evs = unreleased_from [] evs"

definition trace_of :: "db_state \<Rightarrow> db_state \<Rightarrow> db_event list" where
  "trace_of s s' = drop (length (db_log s)) (db_log s')"

text \<open>
  \<open>no_checkout evs\<close>: the trace holds no acquire and no release (the calls made on a
  connection while it is held are of this kind).
\<close>

fun is_checkout :: "db_event \<Rightarrow> bool" where
  "is_checkout (Acquire c) = True"
| "is_checkout (Release c) = True"
| "is_checkout ev = False"

definition no_checkout :: "db_event list \<Rightarrow> bool" where
  "no_checkout evs = (filter is_checkout evs = [])"

subsection \<open>The four operations under one name\<close>

text \<open>
  A gateway operation with its arguments, and its run: the outcome (tagged with the
  operation's result type) and the state it leaves.
\<close>

datatype db_op =
    ExecuteQuery string "(string \<times> pyval) list option"
  | ExecuteDml string "(string \<times> pyval) list option" bool
  | ExecuteProcedure string "pyval list option"
  | TestConnection

datatype db_result =
    Frame data_frame
  | RowsAffected int
  | ProcedureResult pyval
  | Connected bool

definition tagged :: "('a \<Rightarrow> db_result) \<Rightarrow> (db_exn + 'a) \<times> db_state \<Rightarrow> (db_exn + db_result) \<times> db_state" where
  "tagged tag r = (case r of (Inl e, s) \<Rightarrow> (Inl e, s) | (Inr v, s) \<Rightarrow> (Inr (tag v), s))"

fun run_db_op :: "config \<Rightarrow> driver \<Rightarrow> db_op \<Rightarrow> db_state \<Rightarrow> (db_exn + db_result) \<times> db_state" where
  "run_db_op cfg drv (ExecuteQuery query params) s =
     tagged Frame (execute_query cfg drv query params s)"
| "run_db_op cfg drv (ExecuteDml statement params commit) s =
     tagged RowsAffected (execute_dml cfg drv statement params commit s)"
| "run_db_op cfg drv (ExecuteProcedure procedure_name params) s =
     tagged ProcedureResult (execute_procedure cfg drv procedure_name params s)"
| "run_db_op cfg drv TestConnection s =
     tagged Connected (test_connection cfg drv s)"

text \<open>
  What the block under \<open>with cls.get_connection() as conn:\<close> may do: leave the pool
  attribute alone, add to the log only calls made on the held connection, and return what
  the driver decides, whatever the gateway's state.
\<close>

definition well_behaved ::
    "(connection \<Rightarrow> db_state \<Rightarrow> (db_exn + 'a) \<times> db_state) \<Rightarrow> bool" where
  "well_behaved body =
     (\<forall>c s. pool_slot (snd (body c s)) = pool_slot s \<and>
            (\<exists>evs. db_log (snd (body c s)) = db_log s @ evs \<and> no_checkout evs) \<and>
            (\<forall>s'. fst (body c s) = fst (body c s')))"

text \<open>
  \<open>created cfg drv s\<close>: the pool creation an operation starts with, when no pool is there
  and the driver can create one.
\<close>

definition created :: "config \<Rightarrow> driver \<Rightarrow> db_state \<Rightarrow> db_event list" where
  "created cfg drv s =
     (if pool_slot s = None \<and> create_pool_raises drv = None then [CreatePool (new_pool cfg)]
      else [])"

section \<open>Concrete inputs\<close>

text \<open>
  The configuration \<open>Config\<close> has when no environment variable is set (the icon is the
  UTF-8 encoding of its code point), and small environments used to run the definitions:
  a clock ticking once a second, a network that answers every request with one response
  or fails every request with one exception, and a database whose statement execution
  fails.
\<close>

definition default_config :: config where
  "default_config =
     \<lparr>APP_TITLE = ''HCC Compression Advisor'',
      APP_ICON = [CHR 0xF0, CHR 0x9F, CHR 0x93, CHR 0x8A],
      SESSION_TIMEOUT_MINUTES = 30,
      MAX_LOGIN_ATTEMPTS = 3,
      DASHBOARD_PASSWORD = ''admin123'',
      DB_HOST = ''localhost'',
      DB_PORT = 1521,
      DB_SERVICE = ''XEPDB1'',
      DB_USER = ''hcc_advisor'',
      DB_PASSWORD = '''',
      ORDS_BASE_URL = ''https://localhost:8443/ords/hcc_advisor'',
      ORDS_USERNAME = ''hcc_advisor'',
      ORDS_PASSWORD = '''',
      SSL_ENABLED = True,
      POOL_MIN = 2,
      POOL_MAX = 10,
      POOL_INCREMENT = 1,
      API_TIMEOUT = 30\<rparr>"

definition seconds_clock :: "nat \<Rightarrow> int" where
  "seconds_clock k = int k * 1000000"

definition hours_clock :: "nat \<Rightarrow> int" where
  "hours_clock k = int k * 3600000000"

definition locked_session :: session where
  "locked_session =
     run_ops default_config [Login ''a'', Login ''b'', Login ''c''] (initial_session seconds_clock)"

definition respond :: "http_response \<Rightarrow> transport" where
  "respond r req = Inr r"

definition fail_with :: "api_exn \<Rightarrow> transport" where
  "fail_with e req = Inl e"

definition no_io :: api_io where
  "no_io = \<lparr>calls = [], api_ui = []\<rparr>"

definition multiple_choices :: http_response where
  "multiple_choices =
     \<lparr>status_code = 300, reason = ''Multiple Choices'',
      resp_url = ''https://localhost:8443/ords/hcc_advisor/recommendations'',
      json_result = Inr (PDict [(''items'', PList [])])\<rparr>"

definition not_found :: http_response where
  "not_found =
     \<lparr>status_code = 404, reason = ''Not Found'',
      resp_url = ''https://localhost:8443/ords/hcc_advisor/health'',
      json_result = Inr (PDict [(''status'', PStr ''healthy'')])\<rparr>"

definition no_content :: http_response where
  "no_content =
     \<lparr>status_code = 204, reason = ''No Content'',
      resp_url = ''https://localhost:8443/ords/hcc_advisor/compression/execute'',
      json_result = Inl (RequestException ''Expecting value: line 1 column 1 (char 0)'')\<rparr>"

definition failing_driver :: driver where
  "failing_driver =
     \<lparr>create_pool_raises = None,
      acquire_result = Inr 7,
      cursor_raises = None,
      execute_raises = (\<lambda>statement params.
                          Some (OracleError ''ORA-00942: table or view does not exist'')),
      fetchall_result = Inr [],
      fetchone_raises = None,
      description = Some [],
      rowcount = 0,
      callproc_result = (\<lambda>name params.
                           Inl (OracleError ''ORA-06550: identifier must be declared'')),
      commit_raises = None,
      cursor_close_raises = None,
      pool_close_raises = None\<rparr>"

definition no_pool :: db_state where
  "no_pool = \<lparr>pool_slot = None, db_log = [], db_ui = []\<rparr>"

definition open_pool :: db_state where
  "open_pool = \<lparr>pool_slot = Some (new_pool default_config), db_log = [], db_ui = []\<rparr>"

section \<open>Session Guard: lockout, attempt bound, idle timeout\<close>

subsection \<open>What each operation does to the failed attempts counter\<close>


lemma login_attempts_datetime_now [simp]:
  "login_attempts (snd (datetime_now s)) = login_attempts s"
  by (simp add: datetime_now_def)

lemma login_attempts_st [simp]:
  "login_attempts (st_error m s) = login_attempts s"
  "login_attempts (st_warning m s) = login_attempts s"
  "login_attempts (st_success m s) = login_attempts s"
  by (simp_all add: st_error_def st_warning_def st_success_def)

lemma login_attempts_logout [simp]: "login_attempts (logout s) = login_attempts s"
  by (simp add: logout_def datetime_now_def)

lemma login_attempts_update_activity [simp]:
  "login_attempts (update_activity s) = login_attempts s"
  by (simp add: update_activity_def datetime_now_def)

lemma login_attempts_check_session_timeout [simp]:
  "login_attempts (snd (check_session_timeout cfg s)) = login_attempts s"
  by (simp add: check_session_timeout_def datetime_now_def split: option.splits sum.splits)

lemma login_attempts_initialize:
  "login_attempts (initialize_session_state s) =
     (case login_attempts s of None \<Rightarrow> Some 0 | Some n \<Rightarrow> Some n)"
  by (simp add: initialize_session_state_def datetime_now_def Let_def split: option.splits)

lemma login_locked:
  assumes "login_attempts s = Some n" and "MAX_LOGIN_ATTEMPTS cfg \<le> n"
  shows "login cfg p s =
           (Inr False,
            st_error (''Maximum login attempts ('' @ show_int (MAX_LOGIN_ATTEMPTS cfg)
                        @ '') exceeded. Please try again later.'') s)"
  using assms by (simp add: login_def)

lemma login_attempts_show_login_page_locked:
  assumes "login_attempts s = Some n" and "MAX_LOGIN_ATTEMPTS cfg \<le> n"
  shows "login_attempts (snd (show_login_page cfg form s)) = Some n"
  using assms
  by (simp add: show_login_page_def login_locked [where n = n] Let_def)

lemma login_attempts_require_authentication_locked:
  assumes "login_attempts s = Some n" and "MAX_LOGIN_ATTEMPTS cfg \<le> n"
  shows "login_attempts (snd (require_authentication cfg form s)) = Some n"
proof -
  let ?s1 = "initialize_session_state s"
  have a: "login_attempts ?s1 = Some n"
    using assms by (simp add: login_attempts_initialize)
  obtain r s2 where c: "check_session_timeout cfg ?s1 = (r, s2)"
    by (cases "check_session_timeout cfg ?s1")
  have b: "login_attempts s2 = Some n"
    using login_attempts_check_session_timeout [of cfg ?s1] a c by simp
  define s3 where "s3 = (case r of Inr True \<Rightarrow> st_warning ''Session timed out. Please login again.'' s2 | _ \<Rightarrow> s2)"
  have d: "login_attempts s3 = Some n"
    using b by (simp add: s3_def split: sum.splits bool.splits)
  have e: "login_attempts (snd (show_login_page cfg form s3)) = Some n"
    using d assms(2) by (rule login_attempts_show_login_page_locked)
  show ?thesis
  proof (cases r)
    case (Inl x)
    then show ?thesis using b c by (simp add: require_authentication_def)
  next
    case (Inr t)
    then have f: "s3 = (if t then st_warning ''Session timed out. Please login again.'' s2 else s2)"
      by (simp add: s3_def)
    show ?thesis
    proof (cases "is_authenticated s3")
      case True
      then show ?thesis
        using Inr c d f by (simp add: require_authentication_def Let_def)
    next
      case False
      then show ?thesis
        using Inr c e f
        by (cases "show_login_page cfg form s3")
           (simp add: require_authentication_def Let_def split: sum.splits)
    qed
  qed
qed

lemma apply_op_locked:
  assumes "login_attempts s = Some n" and "MAX_LOGIN_ATTEMPTS cfg \<le> n"
  shows "login_attempts (apply_op cfg x s) = Some n"
  using assms
  by (cases x)
     (simp_all add: login_locked [where n = n]
        login_attempts_require_authentication_locked [where n = n])

lemma run_ops_locked:
  assumes "login_attempts s = Some n" and "MAX_LOGIN_ATTEMPTS cfg \<le> n"
  shows "login_attempts (run_ops cfg xs s) = Some n"
  using assms
  by (induction xs arbitrary: s) (simp_all add: apply_op_locked)

text \<open>
  C4. A login with a password other than the configured secret, made while the failed
  attempts counter is below the maximum, is rejected and adds exactly one to the counter.
  Once the counter has reached the maximum, it stays there through any further Session
  Guard operations, and every later login is rejected with the counter unchanged and with
  the same outcome whatever the password, the configured secret included.
\<close>

theorem login_rejects_and_locks:
  "(p \<noteq> DASHBOARD_PASSWORD cfg \<and> login_attempts s = Some n \<and> n < MAX_LOGIN_ATTEMPTS cfg \<longrightarrow>
      fst (login cfg p s) = Inr False \<and>
      login_attempts (snd (login cfg p s)) = Some (n + 1)) \<and>
   (login_attempts s = Some n \<and> MAX_LOGIN_ATTEMPTS cfg \<le> n \<longrightarrow>
      (\<forall>xs q. fst (login cfg q (run_ops cfg xs s)) = Inr False \<and>
              login_attempts (snd (login cfg q (run_ops cfg xs s))) = Some n \<and>
              login cfg q (run_ops cfg xs s)
                = login cfg (DASHBOARD_PASSWORD cfg) (run_ops cfg xs s)))"
proof (intro conjI impI allI)
  assume "p \<noteq> DASHBOARD_PASSWORD cfg \<and> login_attempts s = Some n \<and> n < MAX_LOGIN_ATTEMPTS cfg"
  then show "fst (login cfg p s) = Inr False"
    and "login_attempts (snd (login cfg p s)) = Some (n + 1)"
    by (simp_all add: login_def Let_def)
next
  fix xs q
  assume h: "login_attempts s = Some n \<and> MAX_LOGIN_ATTEMPTS cfg \<le> n"
  then have l: "login_attempts (run_ops cfg xs s) = Some n"
    by (simp add: run_ops_locked)
  from h l show "fst (login cfg q (run_ops cfg xs s)) = Inr False"
    and "login_attempts (snd (login cfg q (run_ops cfg xs s))) = Some n"
    and "login cfg q (run_ops cfg xs s)
           = login cfg (DASHBOARD_PASSWORD cfg) (run_ops cfg xs s)"
    by (simp_all add: login_locked [where n = n])
qed

theorem login_rejects_and_locks_witness:
  "''guess'' \<noteq> DASHBOARD_PASSWORD default_config \<and>
   login_attempts (initial_session seconds_clock) = Some 0 \<and>
   0 < MAX_LOGIN_ATTEMPTS default_config \<and>
   fst (login default_config ''guess'' (initial_session seconds_clock)) = Inr False \<and>
   login_attempts (snd (login default_config ''guess'' (initial_session seconds_clock))) = Some 1 \<and>
   login_attempts locked_session = Some 3 \<and>
   MAX_LOGIN_ATTEMPTS default_config \<le> 3 \<and>
   fst (login default_config ''admin123'' (run_ops default_config [Logout] locked_session))
     = Inr False \<and>
   login_attempts
     (snd (login default_config ''admin123'' (run_ops default_config [Logout] locked_session)))
     = Some 3"
proof -
  have a: "''guess'' \<noteq> DASHBOARD_PASSWORD default_config \<and>
           login_attempts (initial_session seconds_clock) = Some 0 \<and>
           0 < MAX_LOGIN_ATTEMPTS default_config"
    by (simp add: default_config_def initial_session_def empty_session_def
          login_attempts_initialize)
  have b: "login_attempts locked_session = Some 3 \<and> MAX_LOGIN_ATTEMPTS default_config \<le> 3"
    by (simp add: locked_session_def default_config_def initial_session_def empty_session_def
          login_attempts_initialize login_def Let_def)
  have c: "fst (login default_config ''guess'' (initial_session seconds_clock)) = Inr False \<and>
           login_attempts (snd (login default_config ''guess'' (initial_session seconds_clock)))
             = Some 1"
    using a
      login_rejects_and_locks [where p = "''guess''" and cfg = default_config
        and s = "initial_session seconds_clock" and n = 0]
    by simp
  have d: "fst (login default_config ''admin123'' (run_ops default_config [Logout] locked_session))
             = Inr False \<and>
           login_attempts
             (snd (login default_config ''admin123''
                     (run_ops default_config [Logout] locked_session))) = Some 3"
    using b login_rejects_and_locks [where cfg = default_config and s = locked_session and n = 3]
    by blast
  show ?thesis
    using a b c d by blast
qed


lemma attempts_in_range_login:
  "attempts_in_range cfg s \<Longrightarrow> attempts_in_range cfg (snd (login cfg p s))"
  by (auto simp: attempts_in_range_def login_def Let_def datetime_now_def split: option.splits)

lemma login_attempts_show_login_page:
  "login_attempts (snd (show_login_page cfg form s)) =
     (if submit_button form \<and> password_input form \<noteq> []
      then login_attempts
             (snd (login cfg (password_input form)
                     (s\<lparr>ui := ui s @ [LoginForm (APP_ICON cfg @ '' '' @ APP_TITLE cfg)]\<rparr>)))
      else login_attempts s)"
proof -
  let ?s1 = "s\<lparr>ui := ui s @ [LoginForm (APP_ICON cfg @ '' '' @ APP_TITLE cfg)]\<rparr>"
  obtain r s2 where l: "login cfg (password_input form) ?s1 = (r, s2)"
    by (cases "login cfg (password_input form) ?s1")
  show ?thesis
    using l
    by (cases r) (simp_all add: show_login_page_def Let_def split: option.splits)
qed

lemma attempts_in_range_show_login_page:
  assumes "attempts_in_range cfg s"
  shows "attempts_in_range cfg (snd (show_login_page cfg form s))"
proof -
  let ?s1 = "s\<lparr>ui := ui s @ [LoginForm (APP_ICON cfg @ '' '' @ APP_TITLE cfg)]\<rparr>"
  have "attempts_in_range cfg ?s1"
    using assms by (simp add: attempts_in_range_def)
  then have "attempts_in_range cfg (snd (login cfg (password_input form) ?s1))"
    by (rule attempts_in_range_login)
  then show ?thesis
    using assms by (simp add: attempts_in_range_def login_attempts_show_login_page)
qed

lemma attempts_in_range_initialize:
  "attempts_in_range cfg s \<Longrightarrow> attempts_in_range cfg (initialize_session_state s)"
  by (simp add: attempts_in_range_def login_attempts_initialize split: option.splits)

lemma attempts_in_range_require_authentication:
  assumes "attempts_in_range cfg s"
  shows "attempts_in_range cfg (snd (require_authentication cfg form s))"
proof -
  let ?s1 = "initialize_session_state s"
  obtain r s2 where c: "check_session_timeout cfg ?s1 = (r, s2)"
    by (cases "check_session_timeout cfg ?s1")
  have "login_attempts s2 = login_attempts ?s1"
    using login_attempts_check_session_timeout [of cfg ?s1] c by simp
  then have b: "attempts_in_range cfg s2"
    using attempts_in_range_initialize [OF assms] by (simp add: attempts_in_range_def)
  show ?thesis
  proof (cases r)
    case (Inl x)
    then show ?thesis using b c by (simp add: require_authentication_def)
  next
    case (Inr t)
    define s3 where "s3 = (if t then st_warning ''Session timed out. Please login again.'' s2 else s2)"
    have d: "attempts_in_range cfg s3"
      using b by (simp add: s3_def attempts_in_range_def)
    show ?thesis
    proof (cases "is_authenticated s3")
      case True
      then show ?thesis
        using Inr c d
        by (simp add: require_authentication_def Let_def s3_def [symmetric] attempts_in_range_def)
    next
      case False
      then show ?thesis
        using Inr c attempts_in_range_show_login_page [OF d, of form]
        by (cases "show_login_page cfg form s3")
           (simp add: require_authentication_def Let_def s3_def [symmetric] split: sum.splits)
    qed
  qed
qed

lemma attempts_in_range_apply_op:
  assumes "attempts_in_range cfg s"
  shows "attempts_in_range cfg (apply_op cfg x s)"
  using assms
proof (cases x)
  case (Login p)
  then show ?thesis using assms by (simp add: attempts_in_range_login)
next
  case Logout
  then show ?thesis using assms by (simp add: attempts_in_range_def)
next
  case CheckTimeout
  then show ?thesis using assms by (simp add: attempts_in_range_def)
next
  case (RequireAuthentication form)
  then show ?thesis using assms by (simp add: attempts_in_range_require_authentication)
qed

lemma attempts_in_range_run_ops:
  "attempts_in_range cfg s \<Longrightarrow> attempts_in_range cfg (run_ops cfg xs s)"
  by (induction xs arbitrary: s) (simp_all add: attempts_in_range_apply_op)

lemma attempts_in_range_initial:
  "0 \<le> MAX_LOGIN_ATTEMPTS cfg \<Longrightarrow> attempts_in_range cfg (initial_session clk)"
  by (simp add: attempts_in_range_def initial_session_def empty_session_def
        login_attempts_initialize)

lemma login_secret:
  assumes "login_attempts s = Some n" and "n < MAX_LOGIN_ATTEMPTS cfg"
  shows "login cfg (DASHBOARD_PASSWORD cfg) s =
           (Inr True,
            s\<lparr>authenticated := Some True, username := Some (Some ''admin''),
              login_attempts := Some 0, reads := Suc (reads s),
              last_activity := Some (clock s (reads s))\<rparr>)"
  using assms by (simp add: login_def datetime_now_def)

text \<open>
  C5. With a non-negative configured maximum, after every sequence of Session Guard
  operations from the initial session state the failed attempts counter lies between 0 and
  the maximum; and in every such state where the counter is below the maximum, a login
  with the configured secret succeeds, sets \<open>authenticated\<close> and resets the counter to 0.
\<close>

theorem attempts_bounded_and_reset:
  assumes "0 \<le> MAX_LOGIN_ATTEMPTS cfg"
  shows "attempts_in_range cfg (run_ops cfg xs (initial_session clk)) \<and>
         (\<forall>n. login_attempts (run_ops cfg xs (initial_session clk)) = Some n \<and>
               n < MAX_LOGIN_ATTEMPTS cfg \<longrightarrow>
               fst (login cfg (DASHBOARD_PASSWORD cfg) (run_ops cfg xs (initial_session clk)))
                 = Inr True \<and>
               authenticated
                 (snd (login cfg (DASHBOARD_PASSWORD cfg) (run_ops cfg xs (initial_session clk))))
                 = Some True \<and>
               login_attempts
                 (snd (login cfg (DASHBOARD_PASSWORD cfg) (run_ops cfg xs (initial_session clk))))
                 = Some 0)"
proof (intro conjI allI impI)
  show "attempts_in_range cfg (run_ops cfg xs (initial_session clk))"
    using assms by (simp add: attempts_in_range_run_ops attempts_in_range_initial)
next
  fix n
  assume h: "login_attempts (run_ops cfg xs (initial_session clk)) = Some n \<and>
             n < MAX_LOGIN_ATTEMPTS cfg"
  then have e: "login cfg (DASHBOARD_PASSWORD cfg) (run_ops cfg xs (initial_session clk)) =
           (Inr True,
            (run_ops cfg xs (initial_session clk))\<lparr>authenticated := Some True, username := Some (Some ''admin''),
              login_attempts := Some 0, reads := Suc (reads (run_ops cfg xs (initial_session clk))),
              last_activity := Some (clock (run_ops cfg xs (initial_session clk)) (reads (run_ops cfg xs (initial_session clk))))\<rparr>)"
    by (simp add: login_secret [where n = n])
  show "fst (login cfg (DASHBOARD_PASSWORD cfg) (run_ops cfg xs (initial_session clk))) = Inr True"
    by (simp add: e)
  show "authenticated
          (snd (login cfg (DASHBOARD_PASSWORD cfg) (run_ops cfg xs (initial_session clk))))
          = Some True"
    by (simp add: e)
  show "login_attempts
          (snd (login cfg (DASHBOARD_PASSWORD cfg) (run_ops cfg xs (initial_session clk))))
          = Some 0"
    by (simp add: e)
qed

theorem attempts_bounded_and_reset_witness:
  "0 \<le> MAX_LOGIN_ATTEMPTS default_config \<and>
   attempts_in_range default_config
     (run_ops default_config [Login ''guess'', Login ''guess''] (initial_session seconds_clock)) \<and>
   login_attempts
     (run_ops default_config [Login ''guess'', Login ''guess''] (initial_session seconds_clock))
     = Some 2 \<and>
   2 < MAX_LOGIN_ATTEMPTS default_config \<and>
   fst (login default_config (DASHBOARD_PASSWORD default_config)
          (run_ops default_config [Login ''guess'', Login ''guess'']
             (initial_session seconds_clock))) = Inr True \<and>
   authenticated
     (snd (login default_config (DASHBOARD_PASSWORD default_config)
             (run_ops default_config [Login ''guess'', Login ''guess'']
                (initial_session seconds_clock)))) = Some True \<and>
   login_attempts
     (snd (login default_config (DASHBOARD_PASSWORD default_config)
             (run_ops default_config [Login ''guess'', Login ''guess'']
                (initial_session seconds_clock)))) = Some 0"
proof -
  have a: "0 \<le> MAX_LOGIN_ATTEMPTS default_config"
    by (simp add: default_config_def)
  have b: "login_attempts
             (run_ops default_config [Login ''guess'', Login ''guess'']
                (initial_session seconds_clock)) = Some 2 \<and>
           2 < MAX_LOGIN_ATTEMPTS default_config"
    by (simp add: default_config_def initial_session_def empty_session_def
          login_attempts_initialize login_def Let_def)
  show ?thesis
    using a b
      attempts_bounded_and_reset [OF a, where xs = "[Login ''guess'', Login ''guess'']"
        and clk = seconds_clock]
    by simp
qed


lemma check_session_timeout_result:
  assumes "last_activity s = Some la"
    and "timedelta_minutes (SESSION_TIMEOUT_MINUTES cfg) = Inr w"
  shows "check_session_timeout cfg s =
           (Inr (clock s (reads s) - la > w),
            if clock s (reads s) - la > w then logout (snd (datetime_now s))
            else snd (datetime_now s))"
  using assms by (simp add: check_session_timeout_def datetime_now_def)

lemma logout_fields:
  "authenticated (logout s) = Some False"
  "username (logout s) = Some None"
  "last_activity (logout s) = Some (clock s (reads s))"
  by (simp_all add: logout_def datetime_now_def)

lemma update_activity_stamp:
  "last_activity (update_activity s) = Some (clock (update_activity s) (reads (update_activity s) - 1))"
  by (simp add: update_activity_def datetime_now_def)

lemma login_True_stamp:
  assumes "fst (login cfg p s) = Inr True"
  shows "last_activity (snd (login cfg p s))
           = Some (clock (snd (login cfg p s)) (reads (snd (login cfg p s)) - 1))"
  using assms
  by (auto simp: login_def datetime_now_def Let_def split: option.splits if_splits)

lemma require_authentication_Inr:
  assumes "fst (require_authentication cfg form s) = Inr ()"
  shows "\<exists>s3. snd (require_authentication cfg form s) = update_activity s3"
proof -
  obtain r s2 where c: "check_session_timeout cfg (initialize_session_state s) = (r, s2)"
    by (cases "check_session_timeout cfg (initialize_session_state s)")
  show ?thesis
  proof (cases r)
    case (Inl e)
    then show ?thesis using assms c by (simp add: require_authentication_def)
  next
    case (Inr t)
    define s3 where "s3 = (if t then st_warning ''Session timed out. Please login again.'' s2 else s2)"
    show ?thesis
    proof (cases "is_authenticated s3")
      case True
      then have "snd (require_authentication cfg form s) = update_activity s3"
        using Inr c by (simp add: require_authentication_def Let_def s3_def [symmetric])
      then show ?thesis by blast
    next
      case False
      then have "fst (require_authentication cfg form s) \<noteq> Inr ()"
        using Inr c
        by (cases "show_login_page cfg form s3")
           (simp add: require_authentication_def Let_def s3_def [symmetric] split: sum.splits)
      then show ?thesis using assms by simp
    qed
  qed
qed

lemma check_after_stamp:
  assumes "last_activity s = Some (clock s (reads s - 1))"
    and "timedelta_minutes (SESSION_TIMEOUT_MINUTES cfg) = Inr w"
    and "since_last_reading s \<le> w"
  shows "fst (check_session_timeout cfg s) = Inr False"
  using assms
  by (simp add: check_session_timeout_result [where la = "clock s (reads s - 1)" and w = w]
        since_last_reading_def)

text \<open>
  C8. With \<open>w\<close> the configured idle-timeout window and \<open>last_activity\<close> set,
  \<open>check_session_timeout\<close> returns true exactly when the clock reading minus
  \<open>last_activity\<close> exceeds \<open>w\<close>, and then the state is the one \<open>logout\<close> leaves
  (not authenticated, no user name). Right after a successful \<open>login\<close> or a
  \<open>require_authentication\<close> that lets the caller proceed, that is when the next clock
  reading is no more than \<open>w\<close> after the reading they stamped, it returns false.
\<close>

theorem check_timeout_elapsed:
  assumes "timedelta_minutes (SESSION_TIMEOUT_MINUTES cfg) = Inr w"
  shows "(\<forall>la. last_activity s = Some la \<longrightarrow>
            fst (check_session_timeout cfg s) = Inr (clock s (reads s) - la > w) \<and>
            (clock s (reads s) - la > w \<longrightarrow>
               snd (check_session_timeout cfg s) = logout (snd (datetime_now s)) \<and>
               authenticated (snd (check_session_timeout cfg s)) = Some False \<and>
               username (snd (check_session_timeout cfg s)) = Some None)) \<and>
         (\<forall>p. fst (login cfg p s) = Inr True \<and> since_last_reading (snd (login cfg p s)) \<le> w \<longrightarrow>
            fst (check_session_timeout cfg (snd (login cfg p s))) = Inr False) \<and>
         (\<forall>form. fst (require_authentication cfg form s) = Inr () \<and>
                 since_last_reading (snd (require_authentication cfg form s)) \<le> w \<longrightarrow>
            fst (check_session_timeout cfg (snd (require_authentication cfg form s))) = Inr False)"
proof (intro conjI allI impI)
  fix la
  assume la: "last_activity s = Some la"
  show "fst (check_session_timeout cfg s) = Inr (clock s (reads s) - la > w)"
    by (simp add: check_session_timeout_result [OF la assms])
  assume "clock s (reads s) - la > w"
  then show "snd (check_session_timeout cfg s) = logout (snd (datetime_now s))"
    and "authenticated (snd (check_session_timeout cfg s)) = Some False"
    and "username (snd (check_session_timeout cfg s)) = Some None"
    by (simp_all add: check_session_timeout_result [OF la assms] logout_fields)
next
  fix p
  assume h: "fst (login cfg p s) = Inr True \<and> since_last_reading (snd (login cfg p s)) \<le> w"
  then have "last_activity (snd (login cfg p s))
           = Some (clock (snd (login cfg p s)) (reads (snd (login cfg p s)) - 1))"
    by (simp add: login_True_stamp)
  then show "fst (check_session_timeout cfg (snd (login cfg p s))) = Inr False"
    using assms h by (simp add: check_after_stamp)
next
  fix form
  assume h: "fst (require_authentication cfg form s) = Inr () \<and>
             since_last_reading (snd (require_authentication cfg form s)) \<le> w"
  then obtain s3 where "snd (require_authentication cfg form s) = update_activity s3"
    using require_authentication_Inr by blast
  then have "last_activity (snd (require_authentication cfg form s))
           = Some (clock (snd (require_authentication cfg form s))
                     (reads (snd (require_authentication cfg form s)) - 1))"
    by (simp add: update_activity_stamp)
  then show "fst (check_session_timeout cfg (snd (require_authentication cfg form s))) = Inr False"
    using assms h by (simp add: check_after_stamp)
qed

theorem check_timeout_elapsed_witness:
  "timedelta_minutes (SESSION_TIMEOUT_MINUTES default_config) = Inr 1800000000 \<and>
   last_activity (initial_session hours_clock) = Some 0 \<and>
   clock (initial_session hours_clock) (reads (initial_session hours_clock)) - 0 > 1800000000 \<and>
   fst (check_session_timeout default_config (initial_session hours_clock)) = Inr True \<and>
   authenticated (snd (check_session_timeout default_config (initial_session hours_clock)))
     = Some False \<and>
   fst (login default_config ''admin123'' (initial_session hours_clock)) = Inr True \<and>
   since_last_reading (snd (login default_config ''admin123'' (initial_session seconds_clock)))
     \<le> 1800000000 \<and>
   fst (login default_config ''admin123'' (initial_session seconds_clock)) = Inr True \<and>
   fst (check_session_timeout default_config
          (snd (login default_config ''admin123'' (initial_session seconds_clock)))) = Inr False"
proof -
  have a: "timedelta_minutes (SESSION_TIMEOUT_MINUTES default_config) = Inr 1800000000"
    by (simp add: default_config_def timedelta_minutes_def)
  have i: "initial_session hours_clock =
             \<lparr>authenticated = Some False, login_attempts = Some 0, last_activity = Some 0,
              username = Some None, clock = hours_clock, reads = Suc 0, ui = []\<rparr>"
    by (simp add: initial_session_def empty_session_def initialize_session_state_def
          datetime_now_def hours_clock_def)
  have j: "initial_session seconds_clock =
             \<lparr>authenticated = Some False, login_attempts = Some 0, last_activity = Some 0,
              username = Some None, clock = seconds_clock, reads = Suc 0, ui = []\<rparr>"
    by (simp add: initial_session_def empty_session_def initialize_session_state_def
          datetime_now_def seconds_clock_def)
  have b: "last_activity (initial_session hours_clock) = Some 0 \<and>
           clock (initial_session hours_clock) (reads (initial_session hours_clock)) - 0
             > 1800000000"
    by (simp add: i hours_clock_def)
  have c: "fst (login default_config ''admin123'' (initial_session hours_clock)) = Inr True \<and>
           fst (login default_config ''admin123'' (initial_session seconds_clock)) = Inr True \<and>
           since_last_reading (snd (login default_config ''admin123'' (initial_session seconds_clock)))
             \<le> 1800000000"
    by (simp add: i j login_def default_config_def datetime_now_def since_last_reading_def
          seconds_clock_def)
  have d: "fst (check_session_timeout default_config (initial_session hours_clock)) = Inr True \<and>
           authenticated (snd (check_session_timeout default_config (initial_session hours_clock)))
             = Some False"
    using b check_timeout_elapsed [OF a, where s = "initial_session hours_clock"]
    by (simp add: logout_fields)
  have e: "fst (check_session_timeout default_config
                  (snd (login default_config ''admin123'' (initial_session seconds_clock))))
             = Inr False"
    using c check_timeout_elapsed [OF a, where s = "initial_session seconds_clock"]
    by blast
  show ?thesis
    using a b c d e by blast
qed


section \<open>API Gateway: what is sent and what comes back\<close>

subsection \<open>The outbound call\<close>

lemma make_request_calls:
  "calls (snd (make_request self net method endpoint params json_data io))
     = calls io @ [build_request self method endpoint params json_data]"
  by (simp add: make_request_def on_request_exception_def Let_def
        split: sum.splits option.splits api_exn.splits)

text \<open>
  C1. Whatever the network does, \<open>_make_request\<close> issues exactly one outbound call, and
  that call carries the session's basic-auth credentials, the session's timeout and the
  session's TLS verification flag, with the method, URL, query parameters and body it was
  given. The session built from a configuration holds that configuration's ORDS user name
  and password, its \<open>API_TIMEOUT\<close>, and the verification flag the constructor fixes
  (\<open>False\<close>, whatever the configuration holds).
\<close>

theorem calls_use_session_configuration:
  "(\<exists>req. calls (snd (make_request self net method endpoint params json_data io))
            = calls io @ [req] \<and>
          req_method req = method \<and>
          req_url req = base_url self @ ''/'' @ lstrip_slash endpoint \<and>
          req_params req = params \<and>
          req_json req = json_data \<and>
          req_auth req = Some (auth self) \<and>
          req_timeout req = Some (timeout self) \<and>
          req_verify req = verify_ssl self) \<and>
   auth (ORDSClient_init cfg) = HTTPBasicAuth (ORDS_USERNAME cfg) (ORDS_PASSWORD cfg) \<and>
   timeout (ORDSClient_init cfg) = API_TIMEOUT cfg \<and>
   verify_ssl (ORDSClient_init cfg) = False"
  by (simp add: make_request_calls build_request_def ORDSClient_init_def)

lemma get_recommendations_calls:
  "calls (snd (get_recommendations self net strategy min_savings_pct limit io))
     = calls io @
       [build_request self ''GET'' ''recommendations''
          (Some (if truthy strategy
                 then [(''min_savings_pct'', PFloat min_savings_pct), (''limit'', PInt limit),
                       (''strategy'', str_or_none strategy)]
                 else [(''min_savings_pct'', PFloat min_savings_pct), (''limit'', PInt limit)]))
          None]"
  by (simp add: get_recommendations_def get_def make_request_calls Let_def)

text \<open>
  C10. \<open>get_recommendations\<close> issues one call. For \<open>strategy = None\<close> and for the
  empty string its query parameters are exactly \<open>min_savings_pct\<close> and \<open>limit\<close>, with
  no \<open>strategy\<close> key; for a non-empty string the \<open>strategy\<close> key follows them with
  that string.
\<close>

theorem strategy_sent_only_when_truthy:
  "(strategy = None \<or> strategy = Some '''' \<longrightarrow>
      map req_params
        (drop (length (calls io))
           (calls (snd (get_recommendations self net strategy min_savings_pct limit io))))
        = [Some [(''min_savings_pct'', PFloat min_savings_pct), (''limit'', PInt limit)]]) \<and>
   (\<forall>t. strategy = Some t \<and> t \<noteq> '''' \<longrightarrow>
      map req_params
        (drop (length (calls io))
           (calls (snd (get_recommendations self net strategy min_savings_pct limit io))))
        = [Some [(''min_savings_pct'', PFloat min_savings_pct), (''limit'', PInt limit),
                 (''strategy'', PStr t)]])"
  by (auto simp: get_recommendations_calls build_request_def truthy_def str_or_none_def)

theorem strategy_sent_only_when_truthy_witness:
  "map req_params
     (drop (length (calls no_io))
        (calls (snd (get_recommendations (ORDSClient_init default_config) (respond multiple_choices)
                       (Some '''') 10 50 no_io))))
     = [Some [(''min_savings_pct'', PFloat 10), (''limit'', PInt 50)]] \<and>
   ''QUERY HIGH'' \<noteq> '''' \<and>
   map req_params
     (drop (length (calls no_io))
        (calls (snd (get_recommendations (ORDSClient_init default_config) (respond multiple_choices)
                       (Some ''QUERY HIGH'') 10 50 no_io))))
     = [Some [(''min_savings_pct'', PFloat 10), (''limit'', PInt 50),
              (''strategy'', PStr ''QUERY HIGH'')]]"
  using strategy_sent_only_when_truthy
          [where strategy = "Some ''''" and io = no_io and self = "ORDSClient_init default_config"
             and net = "respond multiple_choices" and min_savings_pct = 10 and limit = 50]
        strategy_sent_only_when_truthy
          [where strategy = "Some ''QUERY HIGH''" and io = no_io
             and self = "ORDSClient_init default_config"
             and net = "respond multiple_choices" and min_savings_pct = 10 and limit = 50]
  by simp

subsection \<open>A response without content\<close>

text \<open>
  C7. When the response to the call has status 204, \<open>_make_request\<close> returns exactly the
  mapping with the single item \<open>success: True\<close>.
\<close>

theorem no_content_is_success:
  "net (build_request self method endpoint params json_data) = Inr response \<and>
   status_code response = 204 \<longrightarrow>
   fst (make_request self net method endpoint params json_data io)
     = Inr (PDict [(''success'', PBool True)])"
  by (simp add: make_request_def raise_for_status_def Let_def)

theorem no_content_is_success_witness:
  "respond no_content (build_request (ORDSClient_init default_config) ''POST''
                         ''compression/execute'' None (Some (PDict [(''dry_run'', PBool True)])))
     = Inr no_content \<and>
   status_code no_content = 204 \<and>
   fst (make_request (ORDSClient_init default_config) (respond no_content) ''POST''
          ''compression/execute'' None (Some (PDict [(''dry_run'', PBool True)])) no_io)
     = Inr (PDict [(''success'', PBool True)])"
  using no_content_is_success
          [of "respond no_content" "ORDSClient_init default_config" "''POST''"
              "''compression/execute''" None "Some (PDict [(''dry_run'', PBool True)])"
              no_content no_io]
  by (simp add: respond_def no_content_def)

subsection \<open>Failures of a request\<close>

lemma make_request_transport_failure:
  assumes "net (build_request self method endpoint params json_data) = Inl (RequestException msg)"
  shows "fst (make_request self net method endpoint params json_data io)
           = Inr (PDict [(''error'', PStr msg)])"
  using assms by (simp add: make_request_def on_request_exception_def Let_def)

lemma raise_for_status_error:
  assumes "400 \<le> status_code response" and "status_code response < 600"
  shows "\<exists>m. raise_for_status response = Some (RequestException m) \<and> m \<noteq> []"
  using assms by (simp add: raise_for_status_def)

lemma make_request_status_error:
  assumes "net (build_request self method endpoint params json_data) = Inr response"
    and "400 \<le> status_code response" and "status_code response < 600"
  shows "\<exists>m. fst (make_request self net method endpoint params json_data io)
               = Inr (PDict [(''error'', PStr m)]) \<and> m \<noteq> []"
proof -
  obtain m where "raise_for_status response = Some (RequestException m)" and "m \<noteq> []"
    using raise_for_status_error [OF assms(2,3)] by blast
  then show ?thesis
    using assms(1) by (simp add: make_request_def on_request_exception_def Let_def)
qed

lemma health_check_returns: "\<exists>b. fst (health_check self net io) = Inr b"
proof (cases "get self net ''health'' None io")
  case (Pair r io')
  then show ?thesis
    by (cases r) (auto simp: health_check_def split: pyval.splits)
qed

lemma health_check_error_envelope:
  assumes "fst (make_request self net ''GET'' ''health'' None None io)
             = Inr (PDict [(''error'', PStr m)])"
  shows "fst (health_check self net io) = Inr False"
  using assms
  by (cases "make_request self net ''GET'' ''health'' None None io")
     (simp add: health_check_def get_def)

lemma health_check_transport_failure:
  assumes "net (build_request self ''GET'' ''health'' None None) = Inl e"
  shows "fst (health_check self net io) = Inr False"
  using assms
  by (cases e)
     (simp_all add: health_check_def get_def make_request_def on_request_exception_def Let_def)

lemma health_check_malformed:
  assumes "net (build_request self ''GET'' ''health'' None None) = Inr response"
    and "\<forall>items. json_result response \<noteq> Inr (PDict items)"
  shows "fst (health_check self net io) = Inr False"
proof (cases "raise_for_status response")
  case None
  show ?thesis
  proof (cases "json_result response")
    case (Inl e)
    then show ?thesis
      using assms(1) None
      by (cases e)
         (simp_all add: health_check_def get_def make_request_def on_request_exception_def Let_def)
  next
    case (Inr v)
    then have "\<forall>items. v \<noteq> PDict items" using assms(2) by simp
    then show ?thesis
      using assms(1) None Inr
      by (cases v) (simp_all add: health_check_def get_def make_request_def Let_def)
  qed
next
  case (Some e)
  then show ?thesis
    using assms(1)
    by (cases e)
       (simp_all add: health_check_def get_def make_request_def on_request_exception_def Let_def)
qed

text \<open>
  C3, as the code has it. When \<open>requests.request\<close> raises a \<open>RequestException\<close>
  (timeout, refused connection, TLS error), \<open>_make_request\<close> returns the envelope whose
  single key \<open>error\<close> holds the exception's message and raises nothing; the envelope's
  string is non-empty when that message is. For every response with a status from 400 to
  599 it returns such an envelope with a non-empty message. \<open>health_check\<close> always
  returns a boolean and raises nothing, and returns false when the request raises, when the
  status is from 400 to 599, and when the body does not parse to a JSON object.
\<close>

theorem failures_become_error_envelopes:
  "(net (build_request self method endpoint params json_data) = Inl (RequestException msg) \<longrightarrow>
      fst (make_request self net method endpoint params json_data io)
        = Inr (PDict [(''error'', PStr msg)]) \<and>
      (msg \<noteq> [] \<longrightarrow>
         returns_error_envelope (fst (make_request self net method endpoint params json_data io)))) \<and>
   (net (build_request self method endpoint params json_data) = Inr response \<and>
    400 \<le> status_code response \<and> status_code response < 600 \<longrightarrow>
      returns_error_envelope (fst (make_request self net method endpoint params json_data io))) \<and>
   (\<exists>b. fst (health_check self net io) = Inr b) \<and>
   ((\<exists>e. net (build_request self ''GET'' ''health'' None None) = Inl e) \<longrightarrow>
      fst (health_check self net io) = Inr False) \<and>
   (\<forall>r. net (build_request self ''GET'' ''health'' None None) = Inr r \<and>
        (400 \<le> status_code r \<and> status_code r < 600 \<or>
         (\<forall>items. json_result r \<noteq> Inr (PDict items))) \<longrightarrow>
      fst (health_check self net io) = Inr False)"
proof (intro conjI impI allI)
  assume h: "net (build_request self method endpoint params json_data) = Inl (RequestException msg)"
  show e: "fst (make_request self net method endpoint params json_data io)
        = Inr (PDict [(''error'', PStr msg)])"
    using h by (rule make_request_transport_failure)
  assume "msg \<noteq> []"
  then show "returns_error_envelope (fst (make_request self net method endpoint params json_data io))"
    by (simp add: e returns_error_envelope_def)
next
  assume "net (build_request self method endpoint params json_data) = Inr response \<and>
    400 \<le> status_code response \<and> status_code response < 600"
  then obtain m where "fst (make_request self net method endpoint params json_data io)
               = Inr (PDict [(''error'', PStr m)])" and "m \<noteq> []"
    using make_request_status_error by blast
  then show "returns_error_envelope (fst (make_request self net method endpoint params json_data io))"
    by (simp add: returns_error_envelope_def)
next
  show "\<exists>b. fst (health_check self net io) = Inr b"
    by (rule health_check_returns)
next
  assume "\<exists>e. net (build_request self ''GET'' ''health'' None None) = Inl e"
  then show "fst (health_check self net io) = Inr False"
    using health_check_transport_failure by blast
next
  fix r
  assume h: "net (build_request self ''GET'' ''health'' None None) = Inr r \<and>
        (400 \<le> status_code r \<and> status_code r < 600 \<or>
         (\<forall>items. json_result r \<noteq> Inr (PDict items)))"
  then consider "400 \<le> status_code r \<and> status_code r < 600"
    | "\<forall>items. json_result r \<noteq> Inr (PDict items)" by blast
  then show "fst (health_check self net io) = Inr False"
  proof cases
    case 1
    then obtain m where "fst (make_request self net ''GET'' ''health'' None None io)
               = Inr (PDict [(''error'', PStr m)])"
      using h make_request_status_error by blast
    then show ?thesis by (rule health_check_error_envelope)
  next
    case 2
    then show ?thesis using h health_check_malformed by blast
  qed
qed

text \<open>
  C3 as stated fails for a status outside 200..299 that \<open>raise_for_status\<close> does not
  treat as an error: a \<open>300 Multiple Choices\<close> response with a JSON body is returned as
  its parsed body, not as an error envelope.
\<close>

theorem redirect_status_counterexample:
  "\<not> (200 \<le> status_code multiple_choices \<and> status_code multiple_choices < 300) \<and>
   fst (make_request (ORDSClient_init default_config) (respond multiple_choices)
          ''GET'' ''recommendations'' None None no_io)
     = Inr (PDict [(''items'', PList [])]) \<and>
   \<not> returns_error_envelope
        (fst (make_request (ORDSClient_init default_config) (respond multiple_choices)
                ''GET'' ''recommendations'' None None no_io))"
  by (simp add: multiple_choices_def respond_def make_request_def raise_for_status_def
        returns_error_envelope_def Let_def)

theorem failures_become_error_envelopes_witness:
  "fail_with (RequestException ''Connection refused'')
     (build_request (ORDSClient_init default_config) ''GET'' ''health'' None None)
     = Inl (RequestException ''Connection refused'') \<and>
   ''Connection refused'' \<noteq> [] \<and>
   returns_error_envelope
     (fst (make_request (ORDSClient_init default_config)
             (fail_with (RequestException ''Connection refused'')) ''GET'' ''health'' None None no_io)) \<and>
   fst (health_check (ORDSClient_init default_config)
          (fail_with (RequestException ''Connection refused'')) no_io) = Inr False \<and>
   respond not_found (build_request (ORDSClient_init default_config) ''GET'' ''health'' None None)
     = Inr not_found \<and>
   400 \<le> status_code not_found \<and> status_code not_found < 600 \<and>
   returns_error_envelope
     (fst (make_request (ORDSClient_init default_config) (respond not_found)
             ''GET'' ''health'' None None no_io)) \<and>
   fst (health_check (ORDSClient_init default_config) (respond not_found) no_io) = Inr False"
  using failures_become_error_envelopes
          [of "fail_with (RequestException ''Connection refused'')"
              "ORDSClient_init default_config" "''GET''" "''health''" None None
              "''Connection refused''" no_io]
        failures_become_error_envelopes
          [of "respond not_found"
              "ORDSClient_init default_config" "''GET''" "''health''" None None
              _ no_io not_found]
  by (simp add: fail_with_def returns_error_envelope_def respond_def not_found_def)

section \<open>Database Gateway: checkout, release and the pool\<close>

subsection \<open>The log under the context manager\<close>


lemma db_fields [simp]:
  "db_log (db_st_error m s) = db_log s"
  "pool_slot (db_st_error m s) = pool_slot s"
  "db_log (db_call ev s) = db_log s @ [ev]"
  "pool_slot (db_call ev s) = pool_slot s"
  "db_log (report_oracle_error pre e s) = db_log s"
  "pool_slot (report_oracle_error pre e s) = pool_slot s"
  by (simp_all add: db_st_error_def db_call_def report_oracle_error_def split: db_exn.splits)

lemma unreleased_from_append:
  "unreleased_from held (xs @ ys) = unreleased_from (unreleased_from held xs) ys"
  by (induction held xs rule: unreleased_from.induct) simp_all

lemma unreleased_from_no_checkout:
  "no_checkout evs \<Longrightarrow> unreleased_from held evs = held"
  unfolding no_checkout_def
  by (induction held evs rule: unreleased_from.induct) simp_all

lemma no_checkout_simps [simp]:
  "no_checkout []"
  "no_checkout (ev # evs) = (\<not> is_checkout ev \<and> no_checkout evs)"
  "no_checkout (xs @ ys) = (no_checkout xs \<and> no_checkout ys)"
  by (simp_all add: no_checkout_def)

lemma no_checkout_not_mem:
  "no_checkout evs \<Longrightarrow> Acquire c \<notin> set evs"
  by (induction evs) auto

lemma well_behaved_query_body: "well_behaved (query_body drv query params)"
  unfolding well_behaved_def query_body_def Let_def
  by (auto split: option.splits sum.splits)

lemma well_behaved_dml_body: "well_behaved (dml_body drv statement params commit)"
  unfolding well_behaved_def dml_body_def Let_def
  by (auto split: option.splits sum.splits)

lemma well_behaved_procedure_body: "well_behaved (procedure_body drv procedure_name params)"
  unfolding well_behaved_def procedure_body_def Let_def
  by (auto split: option.splits sum.splits)

lemma well_behaved_test_body: "well_behaved (test_body drv)"
  unfolding well_behaved_def test_body_def Let_def
  by (auto split: option.splits sum.splits)


lemma well_behavedD:
  assumes "well_behaved body"
  shows "pool_slot (snd (body c s)) = pool_slot s"
    and "\<exists>evs. db_log (snd (body c s)) = db_log s @ evs \<and> no_checkout evs"
    and "fst (body c s) = fst (body c s')"
  using assms unfolding well_behaved_def by blast+

lemma get_connection_closed_fail:
  assumes "pool_slot s = None" and "create_pool_raises drv = Some e"
  shows "get_connection cfg drv body s
           = (Inl e, report_oracle_error ''Failed to create connection pool: '' e s)"
  using assms by (simp add: get_connection_def initialize_pool_def)

lemma get_connection_closed_ok:
  assumes "pool_slot s = None" and "create_pool_raises drv = None"
  shows "get_connection cfg drv body s
           = get_connection cfg drv body
               (db_call (CreatePool (new_pool cfg)) (s\<lparr>pool_slot := Some (new_pool cfg)\<rparr>))"
  using assms by (simp add: get_connection_def initialize_pool_def)

lemma get_connection_open_fail:
  assumes "pool_slot s = Some p" and "acquire_result drv = Inl e"
  shows "get_connection cfg drv body s
           = (Inl e, report_oracle_error ''Database connection error: '' e s)"
  using assms by (simp add: get_connection_def)

lemma get_connection_open:
  assumes wb: "well_behaved body"
    and p: "pool_slot s = Some p" and a: "acquire_result drv = Inr c"
  shows "fst (get_connection cfg drv body s) = fst (body c other)"
    and "\<exists>evs. no_checkout evs \<and>
           db_log (snd (get_connection cfg drv body s)) = db_log s @ Acquire c # evs @ [Release c]"
    and "pool_slot (snd (get_connection cfg drv body s)) = Some p"
proof -
  let ?s2 = "db_call (Acquire c) s"
  obtain r s3 where b: "body c ?s2 = (r, s3)"
    by (cases "body c ?s2")
  have ps: "pool_slot s3 = Some p"
    using well_behavedD(1) [OF wb, of c ?s2] b p by simp
  obtain evs where l: "db_log s3 = db_log s @ Acquire c # evs" and q: "no_checkout evs"
    using well_behavedD(2) [OF wb, of c ?s2] b by auto
  have f: "r = fst (body c other)"
    using well_behavedD(3) [OF wb, of c ?s2 other] b by simp
  have g: "get_connection cfg drv body s =
             (case r of
                Inl e \<Rightarrow> release_connection c (Inl e)
                           (report_oracle_error ''Database connection error: '' e s3)
              | Inr v \<Rightarrow> release_connection c (Inr v) s3)"
    using p a b by (simp add: get_connection_def split: sum.splits)
  have "fst (get_connection cfg drv body s) = r"
    using ps by (cases r) (simp_all add: g release_connection_def)
  then show "fst (get_connection cfg drv body s) = fst (body c other)"
    using f by simp
  have "db_log (snd (get_connection cfg drv body s)) = db_log s @ Acquire c # evs @ [Release c]"
    using ps l by (cases r) (simp_all add: g release_connection_def)
  then show "\<exists>evs. no_checkout evs \<and>
           db_log (snd (get_connection cfg drv body s)) = db_log s @ Acquire c # evs @ [Release c]"
    using q by blast
  show "pool_slot (snd (get_connection cfg drv body s)) = Some p"
    using ps by (cases r) (simp_all add: g release_connection_def)
qed

lemma trace_of_append [simp]:
  "db_log s' = db_log s @ evs \<Longrightarrow> trace_of s s' = evs"
  by (simp add: trace_of_def)

lemma unreleased_checkout:
  assumes "no_checkout pre" and "no_checkout evs"
  shows "unreleased (pre @ Acquire c # evs @ [Release c]) = []"
  using assms
  by (simp add: unreleased_def unreleased_from_append unreleased_from_no_checkout)

lemma no_checkout_created [simp]: "no_checkout (created cfg drv s)"
  by (simp add: created_def)

lemma get_connection_log:
  assumes wb: "well_behaved body"
  shows "(db_log (snd (get_connection cfg drv body s)) = db_log s @ created cfg drv s \<and>
            \<not> ((pool_slot s \<noteq> None \<or> create_pool_raises drv = None) \<and>
               (\<exists>c. acquire_result drv = Inr c)))
         \<or> (\<exists>c evs. acquire_result drv = Inr c \<and> no_checkout evs \<and>
               (pool_slot s \<noteq> None \<or> create_pool_raises drv = None) \<and>
               db_log (snd (get_connection cfg drv body s))
                 = db_log s @ created cfg drv s @ Acquire c # evs @ [Release c])"
proof (cases "pool_slot s")
  case None
  show ?thesis
  proof (cases "create_pool_raises drv")
    case (Some e)
    have "db_log (snd (get_connection cfg drv body s)) = db_log s @ []"
      by (simp add: get_connection_closed_fail [OF None Some])
    then show ?thesis using None Some by (simp add: created_def)
  next
    case n: None
    let ?s1 = "db_call (CreatePool (new_pool cfg)) (s\<lparr>pool_slot := Some (new_pool cfg)\<rparr>)"
    have e: "get_connection cfg drv body s = get_connection cfg drv body ?s1"
      by (rule get_connection_closed_ok [OF None n])
    have p1: "pool_slot ?s1 = Some (new_pool cfg)" by simp
    have l1: "db_log ?s1 = db_log s @ [CreatePool (new_pool cfg)]" by simp
    show ?thesis
    proof (cases "acquire_result drv")
      case (Inl x)
      have "db_log (snd (get_connection cfg drv body s)) = db_log s @ [CreatePool (new_pool cfg)]"
        by (simp add: e get_connection_open_fail [OF p1 Inl])
      then show ?thesis using Inl None n by (simp add: created_def)
    next
      case (Inr c)
      obtain evs where "no_checkout evs"
        and "db_log (snd (get_connection cfg drv body ?s1)) = db_log ?s1 @ Acquire c # evs @ [Release c]"
        using get_connection_open(2) [OF wb p1 Inr] by blast
      then show ?thesis
        using Inr e None n by (simp add: created_def)
    qed
  qed
next
  case (Some p)
  show ?thesis
  proof (cases "acquire_result drv")
    case (Inl x)
    have "db_log (snd (get_connection cfg drv body s)) = db_log s @ []"
      by (simp add: get_connection_open_fail [OF Some Inl])
    then show ?thesis using Inl Some by (simp add: created_def)
  next
    case (Inr c)
    obtain evs where "no_checkout evs"
      and "db_log (snd (get_connection cfg drv body s)) = db_log s @ Acquire c # evs @ [Release c]"
      using get_connection_open(2) [OF wb Some Inr] by blast
    then show ?thesis
      using Inr Some by (simp add: created_def)
  qed
qed

lemma released_of_log:
  assumes "(db_log s' = db_log s @ created cfg drv s \<and>
            \<not> ((pool_slot s \<noteq> None \<or> create_pool_raises drv = None) \<and>
               (\<exists>c. acquire_result drv = Inr c)))
         \<or> (\<exists>c evs. acquire_result drv = Inr c \<and> no_checkout evs \<and>
               (pool_slot s \<noteq> None \<or> create_pool_raises drv = None) \<and>
               db_log s' = db_log s @ created cfg drv s @ Acquire c # evs @ [Release c])"
  shows "unreleased (trace_of s s') = []"
    and "(pool_slot s \<noteq> None \<or> create_pool_raises drv = None) \<and> acquire_result drv = Inr c
         \<longrightarrow> Acquire c \<in> set (trace_of s s') \<and> last (trace_of s s') = Release c"
proof -
  from assms show "unreleased (trace_of s s') = []"
  proof
    assume "db_log s' = db_log s @ created cfg drv s \<and>
            \<not> ((pool_slot s \<noteq> None \<or> create_pool_raises drv = None) \<and>
               (\<exists>c. acquire_result drv = Inr c))"
    then show ?thesis
      by (simp add: unreleased_def unreleased_from_no_checkout)
  next
    assume "\<exists>c evs. acquire_result drv = Inr c \<and> no_checkout evs \<and>
               (pool_slot s \<noteq> None \<or> create_pool_raises drv = None) \<and>
               db_log s' = db_log s @ created cfg drv s @ Acquire c # evs @ [Release c]"
    then obtain c evs where "no_checkout evs"
      and "db_log s' = db_log s @ created cfg drv s @ Acquire c # evs @ [Release c]" by blast
    then show ?thesis
      using unreleased_checkout [of "created cfg drv s" evs c] by simp
  qed
  from assms show "(pool_slot s \<noteq> None \<or> create_pool_raises drv = None) \<and> acquire_result drv = Inr c
         \<longrightarrow> Acquire c \<in> set (trace_of s s') \<and> last (trace_of s s') = Release c"
  proof
    assume "db_log s' = db_log s @ created cfg drv s \<and>
            \<not> ((pool_slot s \<noteq> None \<or> create_pool_raises drv = None) \<and>
               (\<exists>c. acquire_result drv = Inr c))"
    then show ?thesis by blast
  next
    assume "\<exists>c evs. acquire_result drv = Inr c \<and> no_checkout evs \<and>
               (pool_slot s \<noteq> None \<or> create_pool_raises drv = None) \<and>
               db_log s' = db_log s @ created cfg drv s @ Acquire c # evs @ [Release c]"
    then obtain c' evs where "acquire_result drv = Inr c'"
      and "db_log s' = db_log s @ created cfg drv s @ Acquire c' # evs @ [Release c']" by blast
    then show ?thesis by auto
  qed
qed


lemma get_connection_outcome:
  assumes wb: "well_behaved body"
    and "pool_slot s \<noteq> None \<or> create_pool_raises drv = None"
  shows "fst (get_connection cfg drv body s)
           = (case acquire_result drv of Inl e \<Rightarrow> Inl e | Inr c \<Rightarrow> fst (body c other))"
    and "pool_slot (snd (get_connection cfg drv body s))
           = (case pool_slot s of None \<Rightarrow> Some (new_pool cfg) | Some p \<Rightarrow> Some p)"
proof -
  have open_case: "fst (get_connection cfg drv body t)
           = (case acquire_result drv of Inl e \<Rightarrow> Inl e | Inr c \<Rightarrow> fst (body c other)) \<and>
         pool_slot (snd (get_connection cfg drv body t)) = Some p"
    if "pool_slot t = Some p" for t p
  proof (cases "acquire_result drv")
    case (Inl e)
    then show ?thesis using that by (simp add: get_connection_open_fail [OF that Inl])
  next
    case (Inr c)
    then show ?thesis
      using get_connection_open(1) [OF wb that Inr, of cfg other]
        get_connection_open(3) [OF wb that Inr, of cfg]
      by simp
  qed
  show "fst (get_connection cfg drv body s)
           = (case acquire_result drv of Inl e \<Rightarrow> Inl e | Inr c \<Rightarrow> fst (body c other))"
  proof (cases "pool_slot s")
    case None
    then have n: "create_pool_raises drv = None" using assms(2) by simp
    show ?thesis
      using open_case [of "db_call (CreatePool (new_pool cfg)) (s\<lparr>pool_slot := Some (new_pool cfg)\<rparr>)"
                          "new_pool cfg"]
      by (simp add: get_connection_closed_ok [OF None n])
  next
    case (Some p)
    then show ?thesis using open_case [of s p] by simp
  qed
  show "pool_slot (snd (get_connection cfg drv body s))
           = (case pool_slot s of None \<Rightarrow> Some (new_pool cfg) | Some p \<Rightarrow> Some p)"
  proof (cases "pool_slot s")
    case None
    then have n: "create_pool_raises drv = None" using assms(2) by simp
    show ?thesis
      using open_case [of "db_call (CreatePool (new_pool cfg)) (s\<lparr>pool_slot := Some (new_pool cfg)\<rparr>)"
                          "new_pool cfg"] None
      by (simp add: get_connection_closed_ok [OF None n])
  next
    case (Some p)
    then show ?thesis using open_case [of s p] by simp
  qed
qed

lemma except_oracle_error_state [simp]:
  "db_log (snd (except_oracle_error prefix d r)) = db_log (snd r)"
  "pool_slot (snd (except_oracle_error prefix d r)) = pool_slot (snd r)"
  by (cases r; cases "fst r"; simp add: except_oracle_error_def split: db_exn.splits)+

lemma except_oracle_error_outcome:
  "fst (except_oracle_error prefix d r)
     = (case fst r of
          Inl e \<Rightarrow> (case e of OracleError msg \<Rightarrow> Inr d | _ \<Rightarrow> Inl e)
        | Inr v \<Rightarrow> Inr v)"
  by (cases r; cases "fst r"; simp add: except_oracle_error_def split: db_exn.splits)

lemma tagged_state [simp]: "snd (tagged tag r) = snd r"
  by (cases r; cases "fst r"; simp add: tagged_def)

lemma tagged_outcome: "fst (tagged tag r) = (case fst r of Inl e \<Rightarrow> Inl e | Inr v \<Rightarrow> Inr (tag v))"
  by (cases r; cases "fst r"; simp add: tagged_def)

lemma run_db_op_log:
  "(db_log (snd (run_db_op cfg drv op s)) = db_log s @ created cfg drv s \<and>
      \<not> ((pool_slot s \<noteq> None \<or> create_pool_raises drv = None) \<and>
         (\<exists>c. acquire_result drv = Inr c)))
   \<or> (\<exists>c evs. acquire_result drv = Inr c \<and> no_checkout evs \<and>
         (pool_slot s \<noteq> None \<or> create_pool_raises drv = None) \<and>
         db_log (snd (run_db_op cfg drv op s))
           = db_log s @ created cfg drv s @ Acquire c # evs @ [Release c])"
proof (cases op)
  case (ExecuteQuery query params)
  show ?thesis
    using get_connection_log [OF well_behaved_query_body [of drv query params], of cfg drv s]
    by (simp add: ExecuteQuery execute_query_def)
next
  case (ExecuteDml statement params commit)
  show ?thesis
    using get_connection_log [OF well_behaved_dml_body [of drv statement params commit], of cfg drv s]
    by (simp add: ExecuteDml execute_dml_def)
next
  case (ExecuteProcedure procedure_name params)
  show ?thesis
    using get_connection_log [OF well_behaved_procedure_body [of drv procedure_name params], of cfg drv s]
    by (simp add: ExecuteProcedure execute_procedure_def)
next
  case TestConnection
  show ?thesis
    using get_connection_log [OF well_behaved_test_body [of drv], of cfg drv s]
    by (simp add: TestConnection test_connection_def)
qed

subsection \<open>Release on every exit path\<close>

text \<open>
  C2. For each of \<open>execute_query\<close>, \<open>execute_dml\<close>, \<open>execute_procedure\<close> and
  \<open>test_connection\<close>, whatever the driver does (normal return, \<open>oracledb.Error\<close> or
  another exception at any call), the calls the operation adds to the log leave no
  connection acquired and not released; and when a pool is there or can be created and
  \<open>acquire\<close> hands out a connection, the operation's calls contain that acquire and end
  with the release of that connection.
\<close>

theorem connection_released_on_every_path:
  "unreleased (trace_of s (snd (run_db_op cfg drv op s))) = [] \<and>
   ((pool_slot s \<noteq> None \<or> create_pool_raises drv = None) \<and> acquire_result drv = Inr c \<longrightarrow>
      Acquire c \<in> set (trace_of s (snd (run_db_op cfg drv op s))) \<and>
      last (trace_of s (snd (run_db_op cfg drv op s))) = Release c)"
  using released_of_log(1) [OF run_db_op_log] released_of_log(2) [OF run_db_op_log] by blast


lemma failing_trace:
  "trace_of no_pool
     (snd (run_db_op default_config failing_driver
             (ExecuteQuery ''SELECT * FROM missing'' None) no_pool))
   = [CreatePool (new_pool default_config), Acquire 7,
      Execute ''SELECT * FROM missing'' None, Release 7]"
  by (simp add: execute_query_def get_connection_def initialize_pool_def no_pool_def
        failing_driver_def query_body_def given_def release_connection_def Let_def
        report_oracle_error_def db_st_error_def db_call_def trace_of_def)

theorem connection_released_on_every_path_witness:
  "pool_slot no_pool = None \<and>
   create_pool_raises failing_driver = None \<and>
   acquire_result failing_driver = Inr 7 \<and>
   trace_of no_pool
     (snd (run_db_op default_config failing_driver
             (ExecuteQuery ''SELECT * FROM missing'' None) no_pool))
     = [CreatePool (new_pool default_config), Acquire 7,
        Execute ''SELECT * FROM missing'' None, Release 7] \<and>
   unreleased
     (trace_of no_pool
        (snd (run_db_op default_config failing_driver
                (ExecuteQuery ''SELECT * FROM missing'' None) no_pool))) = [] \<and>
   Acquire 7 \<in> set (trace_of no_pool
                      (snd (run_db_op default_config failing_driver
                              (ExecuteQuery ''SELECT * FROM missing'' None) no_pool))) \<and>
   last (trace_of no_pool
           (snd (run_db_op default_config failing_driver
                   (ExecuteQuery ''SELECT * FROM missing'' None) no_pool))) = Release 7"
proof -
  have h: "(pool_slot no_pool \<noteq> None \<or> create_pool_raises failing_driver = None) \<and>
           acquire_result failing_driver = Inr 7"
    by (simp add: failing_driver_def)
  have t: "unreleased
             (trace_of no_pool
                (snd (run_db_op default_config failing_driver
                        (ExecuteQuery ''SELECT * FROM missing'' None) no_pool))) = [] \<and>
           Acquire 7 \<in> set (trace_of no_pool
                      (snd (run_db_op default_config failing_driver
                              (ExecuteQuery ''SELECT * FROM missing'' None) no_pool))) \<and>
           last (trace_of no_pool
                   (snd (run_db_op default_config failing_driver
                           (ExecuteQuery ''SELECT * FROM missing'' None) no_pool))) = Release 7"
    using h connection_released_on_every_path
              [of no_pool default_config failing_driver
                  "ExecuteQuery ''SELECT * FROM missing'' None" 7]
    by simp
  show ?thesis
    using h t failing_trace by (simp add: no_pool_def failing_driver_def)
qed

subsection \<open>A failing statement\<close>

lemma query_body_fails:
  assumes "cursor_raises drv = None"
    and "execute_raises drv statement (given params) = Some e"
  shows "fst (query_body drv statement params c other) = Inl e"
  using assms by (simp add: query_body_def Let_def)

lemma dml_body_fails:
  assumes "cursor_raises drv = None"
    and "execute_raises drv statement (given params) = Some e"
  shows "fst (dml_body drv statement params commit c other) = Inl e"
  using assms by (simp add: dml_body_def Let_def)

lemma except_oracle_error_never_oracle:
  "fst (except_oracle_error prefix d r) \<noteq> Inl (OracleError m)"
  by (cases r; cases "fst r"; simp add: except_oracle_error_def split: db_exn.splits)

lemma except_oracle_error_report:
  assumes "fst r = Inl (OracleError msg)"
  shows "db_ui (snd (except_oracle_error prefix d r)) = db_ui (snd r) @ [StError (prefix @ msg)]"
  using assms by (cases r) (simp add: except_oracle_error_def db_st_error_def)

text \<open>
  C6. When the statement is reached (a pool is there or can be created, a connection and
  a cursor are obtained) and its execution raises an \<open>oracledb.Error\<close>,
  \<open>execute_query\<close> returns the empty data frame, which has no rows, and
  \<open>execute_dml\<close> returns 0, each after reporting the error; and neither operation ever
  lets an \<open>oracledb.Error\<close> out to its caller.
\<close>

theorem failing_statement_returns_default:
  "((pool_slot s \<noteq> None \<or> create_pool_raises drv = None) \<and>
    acquire_result drv = Inr c \<and>
    cursor_raises drv = None \<and>
    execute_raises drv statement (given params) = Some (OracleError msg) \<longrightarrow>
      fst (execute_query cfg drv statement params s) = Inr empty_data_frame \<and>
      rows empty_data_frame = [] \<and>
      last (db_ui (snd (execute_query cfg drv statement params s)))
        = StError (''Query execution error: '' @ msg) \<and>
      fst (execute_dml cfg drv statement params commit s) = Inr 0 \<and>
      last (db_ui (snd (execute_dml cfg drv statement params commit s)))
        = StError (''DML execution error: '' @ msg)) \<and>
   (\<forall>m. fst (execute_query cfg drv statement params s) \<noteq> Inl (OracleError m)) \<and>
   (\<forall>m. fst (execute_dml cfg drv statement params commit s) \<noteq> Inl (OracleError m))"
proof (intro conjI impI allI)
  assume h: "(pool_slot s \<noteq> None \<or> create_pool_raises drv = None) \<and>
    acquire_result drv = Inr c \<and>
    cursor_raises drv = None \<and>
    execute_raises drv statement (given params) = Some (OracleError msg)"
  then have p: "pool_slot s \<noteq> None \<or> create_pool_raises drv = None" by simp
  have q: "fst (get_connection cfg drv (query_body drv statement params) s)
             = Inl (OracleError msg)"
    using h get_connection_outcome(1) [OF well_behaved_query_body p, where cfg = cfg and other = s]
    by (simp add: query_body_fails)
  have d: "fst (get_connection cfg drv (dml_body drv statement params commit) s)
             = Inl (OracleError msg)"
    using h get_connection_outcome(1) [OF well_behaved_dml_body p, where cfg = cfg and other = s]
    by (simp add: dml_body_fails)
  show "fst (execute_query cfg drv statement params s) = Inr empty_data_frame"
    by (simp add: execute_query_def except_oracle_error_outcome q)
  show "rows empty_data_frame = []"
    by (simp add: empty_data_frame_def)
  show "last (db_ui (snd (execute_query cfg drv statement params s)))
        = StError (''Query execution error: '' @ msg)"
    by (simp add: execute_query_def except_oracle_error_report [OF q])
  show "fst (execute_dml cfg drv statement params commit s) = Inr 0"
    by (simp add: execute_dml_def except_oracle_error_outcome d)
  show "last (db_ui (snd (execute_dml cfg drv statement params commit s)))
        = StError (''DML execution error: '' @ msg)"
    by (simp add: execute_dml_def except_oracle_error_report [OF d])
next
  fix m
  show "fst (execute_query cfg drv statement params s) \<noteq> Inl (OracleError m)"
    by (simp add: execute_query_def except_oracle_error_never_oracle)
  show "fst (execute_dml cfg drv statement params commit s) \<noteq> Inl (OracleError m)"
    by (simp add: execute_dml_def except_oracle_error_never_oracle)
qed

theorem failing_statement_returns_default_witness:
  "pool_slot no_pool = None \<and>
   create_pool_raises failing_driver = None \<and>
   acquire_result failing_driver = Inr 7 \<and>
   cursor_raises failing_driver = None \<and>
   execute_raises failing_driver ''SELECT * FROM missing'' (given None)
     = Some (OracleError ''ORA-00942: table or view does not exist'') \<and>
   fst (execute_query default_config failing_driver ''SELECT * FROM missing'' None no_pool)
     = Inr empty_data_frame \<and>
   fst (execute_dml default_config failing_driver ''SELECT * FROM missing'' None True no_pool)
     = Inr 0"
proof -
  have h: "(pool_slot no_pool \<noteq> None \<or> create_pool_raises failing_driver = None) \<and>
           acquire_result failing_driver = Inr 7 \<and>
           cursor_raises failing_driver = None \<and>
           execute_raises failing_driver ''SELECT * FROM missing'' (given None)
             = Some (OracleError ''ORA-00942: table or view does not exist'')"
    by (simp add: failing_driver_def)
  show ?thesis
    using h failing_statement_returns_default
              [where s = no_pool and drv = failing_driver and c = 7
                 and statement = "''SELECT * FROM missing''" and params = None
                 and msg = "''ORA-00942: table or view does not exist''"
                 and cfg = default_config and commit = True]
    by (simp add: no_pool_def failing_driver_def)
qed

subsection \<open>Use after close\<close>

lemma run_db_op_outcome:
  assumes "pool_slot s \<noteq> None \<or> create_pool_raises drv = None"
    and "pool_slot s' \<noteq> None \<or> create_pool_raises drv = None"
  shows "fst (run_db_op cfg drv op s) = fst (run_db_op cfg drv op s')"
proof (cases op)
  case (ExecuteQuery query params)
  show ?thesis
    using get_connection_outcome(1) [OF well_behaved_query_body assms(1), where cfg = cfg and other = s]
      get_connection_outcome(1) [OF well_behaved_query_body assms(2), where cfg = cfg and other = s]
    by (simp add: ExecuteQuery execute_query_def tagged_outcome except_oracle_error_outcome)
next
  case (ExecuteDml statement params commit)
  show ?thesis
    using get_connection_outcome(1) [OF well_behaved_dml_body assms(1), where cfg = cfg and other = s]
      get_connection_outcome(1) [OF well_behaved_dml_body assms(2), where cfg = cfg and other = s]
    by (simp add: ExecuteDml execute_dml_def tagged_outcome except_oracle_error_outcome)
next
  case (ExecuteProcedure procedure_name params)
  show ?thesis
    using get_connection_outcome(1) [OF well_behaved_procedure_body assms(1), where cfg = cfg and other = s]
      get_connection_outcome(1) [OF well_behaved_procedure_body assms(2), where cfg = cfg and other = s]
    by (simp add: ExecuteProcedure execute_procedure_def tagged_outcome except_oracle_error_outcome)
next
  case TestConnection
  show ?thesis
    using get_connection_outcome(1) [OF well_behaved_test_body assms(1), where cfg = cfg and other = s]
      get_connection_outcome(1) [OF well_behaved_test_body assms(2), where cfg = cfg and other = s]
    by (simp add: TestConnection test_connection_def tagged_outcome except_oracle_error_outcome)
qed

lemma run_db_op_pool_slot:
  assumes "pool_slot s \<noteq> None \<or> create_pool_raises drv = None"
  shows "pool_slot (snd (run_db_op cfg drv op s))
           = (case pool_slot s of None \<Rightarrow> Some (new_pool cfg) | Some p \<Rightarrow> Some p)"
proof (cases op)
  case (ExecuteQuery query params)
  show ?thesis
    using get_connection_outcome(2) [OF well_behaved_query_body assms, where cfg = cfg]
    by (simp add: ExecuteQuery execute_query_def)
next
  case (ExecuteDml statement params commit)
  show ?thesis
    using get_connection_outcome(2) [OF well_behaved_dml_body assms, where cfg = cfg]
    by (simp add: ExecuteDml execute_dml_def)
next
  case (ExecuteProcedure procedure_name params)
  show ?thesis
    using get_connection_outcome(2) [OF well_behaved_procedure_body assms, where cfg = cfg]
    by (simp add: ExecuteProcedure execute_procedure_def)
next
  case TestConnection
  show ?thesis
    using get_connection_outcome(2) [OF well_behaved_test_body assms, where cfg = cfg]
    by (simp add: TestConnection test_connection_def)
qed

lemma run_db_op_creates:
  assumes "pool_slot s = None" and "create_pool_raises drv = None"
  shows "CreatePool (new_pool cfg) \<in> set (trace_of s (snd (run_db_op cfg drv op s)))"
  using run_db_op_log [of cfg drv op s] assms
  by (auto simp: created_def)

lemma close_pool_closes:
  assumes "pool_slot s = Some p" and "pool_close_raises drv0 = None"
  shows "close_pool drv0 s = (Inr (), db_call ClosePool (s\<lparr>pool_slot := None\<rparr>))"
  using assms by (simp add: close_pool_def)

text \<open>
  C9. When \<open>close_pool\<close> closes an existing pool it returns normally and leaves no
  pool. Any gateway operation run next, with a driver that can create a pool, creates a
  fresh pool from the configuration, leaves it in place, and has the same outcome as the
  same operation run on the pool that was open before the close.
\<close>

theorem closed_pool_is_recreated:
  "pool_slot s = Some p \<and> pool_close_raises drv0 = None \<and> create_pool_raises drv = None \<longrightarrow>
     fst (close_pool drv0 s) = Inr () \<and>
     pool_slot (snd (close_pool drv0 s)) = None \<and>
     pool_slot (snd (run_db_op cfg drv op (snd (close_pool drv0 s)))) = Some (new_pool cfg) \<and>
     CreatePool (new_pool cfg)
       \<in> set (trace_of (snd (close_pool drv0 s))
                 (snd (run_db_op cfg drv op (snd (close_pool drv0 s))))) \<and>
     fst (run_db_op cfg drv op (snd (close_pool drv0 s))) = fst (run_db_op cfg drv op s)"
proof (intro impI)
  assume h: "pool_slot s = Some p \<and> pool_close_raises drv0 = None \<and> create_pool_raises drv = None"
  let ?closed = "snd (close_pool drv0 s)"
  have c: "close_pool drv0 s = (Inr (), db_call ClosePool (s\<lparr>pool_slot := None\<rparr>))"
    using h by (simp add: close_pool_closes)
  have n: "pool_slot ?closed = None" by (simp add: c)
  have a: "pool_slot (snd (run_db_op cfg drv op ?closed)) = Some (new_pool cfg)"
    using h n run_db_op_pool_slot [where s = ?closed and drv = drv and cfg = cfg and op = op]
    by simp
  have b: "CreatePool (new_pool cfg) \<in> set (trace_of ?closed (snd (run_db_op cfg drv op ?closed)))"
    using h n by (simp add: run_db_op_creates)
  have d: "fst (run_db_op cfg drv op ?closed) = fst (run_db_op cfg drv op s)"
    using h by (intro run_db_op_outcome) simp_all
  show "fst (close_pool drv0 s) = Inr () \<and>
     pool_slot ?closed = None \<and>
     pool_slot (snd (run_db_op cfg drv op ?closed)) = Some (new_pool cfg) \<and>
     CreatePool (new_pool cfg) \<in> set (trace_of ?closed (snd (run_db_op cfg drv op ?closed))) \<and>
     fst (run_db_op cfg drv op ?closed) = fst (run_db_op cfg drv op s)"
    using n a b d by (simp add: c)
qed

theorem closed_pool_is_recreated_witness:
  "pool_slot open_pool = Some (new_pool default_config) \<and>
   pool_close_raises failing_driver = None \<and>
   create_pool_raises failing_driver = None \<and>
   pool_slot (snd (close_pool failing_driver open_pool)) = None \<and>
   pool_slot (snd (run_db_op default_config failing_driver TestConnection
                     (snd (close_pool failing_driver open_pool))))
     = Some (new_pool default_config) \<and>
   fst (run_db_op default_config failing_driver TestConnection
          (snd (close_pool failing_driver open_pool)))
     = fst (run_db_op default_config failing_driver TestConnection open_pool)"
proof -
  have h: "pool_slot open_pool = Some (new_pool default_config) \<and>
           pool_close_raises failing_driver = None \<and>
           create_pool_raises failing_driver = None"
    by (simp add: open_pool_def failing_driver_def)
  show ?thesis
    using h closed_pool_is_recreated
              [where s = open_pool and p = "new_pool default_config" and ?drv0.0 = failing_driver
                 and drv = failing_driver and cfg = default_config and op = TestConnection]
    by simp
qed

end
